theory Spec2Isabelle
  imports Complex_Main "HOL-Library.Word"
begin

unbundle bit_operations_syntax

section \<open>Client protocol: session command history (mariadb\_client.cc)\<close>

text \<open>
  The command byte of a client packet. The numeric values live in a protocol header; the
  code only switches on the names, so the commands it distinguishes are constructors and every
  other command byte is \<open>MXS_COM_OTHER\<close>.
\<close>

datatype mxs_cmd =
    MXS_COM_QUIT
  | MXS_COM_PING
  | MXS_COM_STMT_RESET
  | MXS_COM_STMT_EXECUTE
  | MXS_COM_STMT_CLOSE
  | MXS_COM_CHANGE_USER
  | MXS_COM_STMT_PREPARE
  | MXS_COM_BINLOG_DUMP
  | MXS_COM_OTHER "8 word"

text \<open>
  A packet buffer. \<open>data\<close> are its bytes (header included), \<open>buf_id\<close> is the id set with
  \<open>set_id\<close> (0 on a fresh buffer). The three remaining fields are what the decoding helpers
  answer for this buffer: \<open>mariadb::get_command\<close>, \<open>mxs_mysql_extract_ps_id\<close> and the query
  classifier's \<open>target_is_all(info.target())\<close>.
\<close>

record GWBUF =
  data :: "8 word list"
  buf_id :: "32 word"
  command :: mxs_cmd
  ps_id :: "32 word"
  target_is_all :: bool

text \<open>\<open>MAX_SESCMD_ID = std::numeric_limits<uint32_t>::max()\<close>, the past-the-end value.\<close>

definition MAX_SESCMD_ID :: "32 word" where
  "MAX_SESCMD_ID = 0xFFFFFFFF"

definition MYSQL_HEADER_LEN :: nat where
  "MYSQL_HEADER_LEN = 4"

text \<open>
  The part of the client connection and of its session data that recording touches:
  the id counter, the command waiting for its reply, the history, the saved parameter type
  blocks (\<open>exec_metadata\<close>, a \<open>std::map\<close>), the classifier's parameter counts, and whether the
  session's capabilities have \<open>RCAP_TYPE_SESCMD_HISTORY\<close>.
\<close>

record sescmd_state =
  m_next_id :: "32 word"
  m_pending_cmd :: "GWBUF option"
  history :: "(GWBUF \<times> bool) list"
  exec_metadata :: "32 word \<rightharpoonup> 8 word list"
  param_count :: "32 word \<Rightarrow> 16 word"
  sescmd_history :: bool

text \<open>
  Modelled from the spec: the \<open>History\<close> class (its \<open>erase\<close>, \<open>clear\<close> and \<open>add\<close>) is not
  among the sources. The history is "an ordered list of (id, packet, expected_ok) entries";
  "a COM_STMT_CLOSE removes the COM_STMT_PREPARE with the same id"; "a COM_CHANGE_USER clears
  the list". \<open>erase\<close> answers whether an entry was removed, which is how the caller uses it.
\<close>

definition history_erase :: "32 word \<Rightarrow> (GWBUF \<times> bool) list \<Rightarrow> bool \<times> (GWBUF \<times> bool) list" where
  "history_erase i h =
     (list_ex (\<lambda>e. buf_id (fst e) = i) h, filter (\<lambda>e. buf_id (fst e) \<noteq> i) h)"

definition history_add :: "GWBUF \<Rightarrow> bool \<Rightarrow> (GWBUF \<times> bool) list \<Rightarrow> (GWBUF \<times> bool) list" where
  "history_add b ok h = h @ [(b, ok)]"

text \<open>
  Modelled from the spec: the initial value of \<open>m_next_id\<close> is given in the class declaration,
  which is not among the sources; the counter of session command ids starts at 1.
\<close>

definition initial_next_id :: "32 word" where
  "initial_next_id = 1"

text \<open>
  The increment that follows every \<open>buffer.set_id(m_next_id)\<close>:
  \<open>if (++m_next_id == MAX_SESCMD_ID) m_next_id = 1\<close>.
\<close>

definition advance_next_id :: "32 word \<Rightarrow> 32 word" where
  "advance_next_id n = (if n + 1 = MAX_SESCMD_ID then 1 else n + 1)"

text \<open>
  \<open>COM_STMT_EXECUTE\<close> in \<open>record_for_history\<close>: with a positive parameter count, the byte at
  \<open>types_offset\<close> is the new-parameters flag and the \<open>params * 2\<close> bytes after it are stored
  under the statement id. The source reads through a raw pointer; a packet too short to hold
  the flag is read as having none.
\<close>

definition stmt_execute_metadata :: "GWBUF \<Rightarrow> sescmd_state \<Rightarrow> sescmd_state" where
  "stmt_execute_metadata buffer s =
     (let i = ps_id buffer;
          params = unat (param_count s i)
      in if params > 0
         then (let types_offset = MYSQL_HEADER_LEN + 1 + 4 + 1 + 4 + ((params + 7) div 8)
               in if types_offset < length (data buffer) \<and> data buffer ! types_offset \<noteq> 0
                  then s\<lparr>exec_metadata :=
                         (exec_metadata s)(i \<mapsto> take (params * 2) (drop (types_offset + 1) (data buffer)))\<rparr>
                  else s)
         else s)"

text \<open>
  \<open>record_for_history\<close>: the switch on the command decides \<open>should_record\<close> and edits the
  history; a recorded buffer gets the next id and a copy of it becomes the pending command.
  The result is \<open>should_record\<close>, the buffer (it is passed by reference) and the new state.
\<close>

definition record_for_history :: "GWBUF \<Rightarrow> sescmd_state \<Rightarrow> bool \<times> GWBUF \<times> sescmd_state" where
  "record_for_history buffer s =
     (let (should_record, s1) =
        (case command buffer of
           MXS_COM_QUIT \<Rightarrow> (False, s)
         | MXS_COM_PING \<Rightarrow> (False, s)
         | MXS_COM_STMT_RESET \<Rightarrow> (False, s)
         | MXS_COM_STMT_EXECUTE \<Rightarrow> (False, stmt_execute_metadata buffer s)
         | MXS_COM_STMT_CLOSE \<Rightarrow>
             (let i = ps_id buffer;
                  (erased, h) = history_erase i (history s)
              in if erased
                 then (False, s\<lparr>history := h, exec_metadata := (exec_metadata s)(i := None)\<rparr>)
                 else (False, s\<lparr>history := h\<rparr>))
         | MXS_COM_CHANGE_USER \<Rightarrow> (False, s\<lparr>history := [], exec_metadata := Map.empty\<rparr>)
         | MXS_COM_STMT_PREPARE \<Rightarrow> (True, s)
         | _ \<Rightarrow> (target_is_all buffer, s))
      in if should_record
         then (let buffer' = buffer\<lparr>buf_id := m_next_id s1\<rparr>
               in (True, buffer',
                   s1\<lparr>m_pending_cmd := Some buffer', m_next_id := advance_next_id (m_next_id s1)\<rparr>))
         else (False, buffer, s1))"

text \<open>
  The head of \<open>route_statement\<close>: with the history capability the buffer goes through
  \<open>record_for_history\<close>; without it only a \<open>COM_STMT_PREPARE\<close> gets an id.
  The result is \<open>recording\<close>, the buffer as it is routed on, and the new state.
\<close>

definition route_statement_ids :: "GWBUF \<Rightarrow> sescmd_state \<Rightarrow> bool \<times> GWBUF \<times> sescmd_state" where
  "route_statement_ids buffer s =
     (if sescmd_history s then record_for_history buffer s
      else if command buffer = MXS_COM_STMT_PREPARE
           then (False, buffer\<lparr>buf_id := m_next_id s\<rparr>, s\<lparr>m_next_id := advance_next_id (m_next_id s)\<rparr>)
           else (False, buffer, s))"

text \<open>Whether \<open>route_statement\<close> called \<open>set_id\<close> on the buffer.\<close>

definition id_assigned :: "GWBUF \<Rightarrow> sescmd_state \<Rightarrow> bool" where
  "id_assigned buffer s =
     (if sescmd_history s then fst (record_for_history buffer s)
      else command buffer = MXS_COM_STMT_PREPARE)"

text \<open>The ids handed out while a list of client commands is routed, in order.\<close>

fun assigned_ids :: "GWBUF list \<Rightarrow> sescmd_state \<Rightarrow> 32 word list" where
  "assigned_ids [] s = []"
| "assigned_ids (b # bs) s =
     (case route_statement_ids b s of
        (_, b', s') \<Rightarrow> (if id_assigned b s then [buf_id b'] else []) @ assigned_ids bs s')"

text \<open>The cycle the counter runs through: \<open>1, 2, \<dots>, 2^32 - 2, 1, \<dots>\<close>.\<close>

definition nth_sescmd_id :: "nat \<Rightarrow> 32 word" where
  "nth_sescmd_id k = word_of_nat (k mod (2 ^ 32 - 2)) + 1"

text \<open>The history as a replay sees it: the ids of its entries, in order.\<close>

definition history_ids :: "sescmd_state \<Rightarrow> 32 word list" where
  "history_ids s = map (\<lambda>e. buf_id (fst e)) (history s)"


text \<open>Fixtures for concrete runs: a packet of a given command and statement id that the
  classifier does not route to all backends, and the state of a connection that has recorded
  nothing yet on a session with the history capability.\<close>

definition plain_packet :: "mxs_cmd \<Rightarrow> 32 word \<Rightarrow> GWBUF" where
  "plain_packet c i = \<lparr>data = [], buf_id = 0, command = c, ps_id = i, target_is_all = False\<rparr>"

definition fresh_sescmd_state :: sescmd_state where
  "fresh_sescmd_state =
     \<lparr>m_next_id = initial_next_id, m_pending_cmd = None, history = [],
      exec_metadata = Map.empty, param_count = (\<lambda>_. 0), sescmd_history = True\<rparr>"

section \<open>Client protocol: routing a statement and handling its reply (mariadb\_client.cc)\<close>

datatype RoutingState =
    PACKET_START
  | LARGE_PACKET
  | LARGE_HISTORY_PACKET
  | LOAD_DATA
  | CHANGING_STATE
  | RECORD_HISTORY

datatype ChangingState =
    ChangingState_NONE
  | ChangingState_DB
  | ChangingState_ROLE
  | ChangingState_USER

text \<open>What \<open>clientReply\<close> asks of the \<open>mxs::Reply\<close> it is given.\<close>

record Reply =
  is_complete :: bool
  is_ok :: bool
  is_unexpected_error :: bool
  state_is_load_data :: bool

text \<open>
  The fields of \<open>mariadb::AuthenticationData\<close> that change-user reads: the user name, the
  default database and the default role of the user entry.
\<close>

record AuthenticationData =
  user :: string
  default_db :: string
  default_role :: string

text \<open>
  The client connection with the session fields it writes. \<open>writeq\<close> collects the buffers
  given to \<open>write\<close> (the client socket), \<open>downstream\<close> those given to
  \<open>m_downstream->routeQuery\<close>. The three \<open>change_user\<close> fields are the members of
  \<open>m_change_user\<close>; the owning pointers are options.
\<close>

record client =
  sescmd :: sescmd_state
  m_num_responses :: int
  m_routing_state :: RoutingState
  m_changing_state :: ChangingState
  m_pending_value :: string
  current_db :: string
  role :: string
  auth_data :: "AuthenticationData option"
  change_user_auth_data :: "AuthenticationData option"
  change_user_auth_data_bu :: "AuthenticationData option"
  change_user_client_query :: "GWBUF option"
  m_command :: mxs_cmd
  m_next_sequence :: "8 word"
  writeq :: "GWBUF list"
  downstream :: "GWBUF list"

text \<open>
  \<open>finish_recording_history\<close>: on a complete reply the pending command moves into the
  history with the reply's outcome.
\<close>

definition finish_recording_history :: "Reply \<Rightarrow> client \<Rightarrow> client" where
  "finish_recording_history reply s =
     (if is_complete reply
      then s\<lparr>m_routing_state := PACKET_START,
             sescmd := (sescmd s)
               \<lparr>history := (case m_pending_cmd (sescmd s) of
                               Some p \<Rightarrow> history_add p (is_ok reply) (history (sescmd s))
                             | None \<Rightarrow> history (sescmd s)),
                m_pending_cmd := None\<rparr>\<rparr>
      else s)"


text \<open>
  \<open>complete_change_user_p2\<close> reads the current authentication data through its pointer;
  \<open>complete_change_user_p1\<close> has installed it.
\<close>

definition complete_change_user_p2 :: "client \<Rightarrow> client" where
  "complete_change_user_p2 s =
     (case auth_data s of
        Some curr_auth_data \<Rightarrow>
          s\<lparr>change_user_auth_data_bu := None,
            current_db := default_db curr_auth_data,
            role := default_role curr_auth_data\<rparr>
      | None \<Rightarrow> s\<lparr>change_user_auth_data_bu := None\<rparr>)"

definition cancel_change_user_p2 :: "client \<Rightarrow> client" where
  "cancel_change_user_p2 s =
     s\<lparr>auth_data := change_user_auth_data_bu s, change_user_auth_data_bu := None\<rparr>"

text \<open>
  \<open>clientReply\<close>. When one response is outstanding the pending state change is settled and
  the routing state moves on; then a complete reply that is no unexpected error takes one
  off the counter, unless the command is a binlog dump; last, the buffer is written to the
  client. In the \<open>USER\<close> case the sequence byte of the buffer is rewritten first. The
  transaction tracker and the pooling flags that the function also sets are not part of
  the state kept here.
\<close>

definition settle_changing_state :: "GWBUF \<Rightarrow> Reply \<Rightarrow> client \<Rightarrow> GWBUF \<times> client" where
  "settle_changing_state buffer reply s =
     (if m_changing_state s \<noteq> ChangingState_NONE
      then (let (buffer', s1) =
                  (case m_changing_state s of
                     ChangingState_DB \<Rightarrow>
                       (buffer, if is_ok reply then s\<lparr>current_db := m_pending_value s\<rparr> else s)
                   | ChangingState_ROLE \<Rightarrow>
                       (buffer,
                        if is_ok reply
                        then (if m_pending_value s = ''NONE''
                              then s\<lparr>role := []\<rparr>
                              else s\<lparr>role := m_pending_value s\<rparr>)
                        else s)
                   | ChangingState_USER \<Rightarrow>
                       (buffer\<lparr>data := (data buffer)[3 := m_next_sequence s]\<rparr>,
                        if is_ok reply then complete_change_user_p2 s else cancel_change_user_p2 s)
                   | ChangingState_NONE \<Rightarrow> (buffer, s))
            in (buffer', s1\<lparr>m_pending_value := [], m_changing_state := ChangingState_NONE\<rparr>))
      else (buffer, s))"

definition settle_routing_state :: "Reply \<Rightarrow> client \<Rightarrow> client" where
  "settle_routing_state reply s =
     (case m_routing_state s of
        CHANGING_STATE \<Rightarrow> s\<lparr>m_routing_state := PACKET_START\<rparr>
      | LOAD_DATA \<Rightarrow> (if is_complete reply then s\<lparr>m_routing_state := PACKET_START\<rparr> else s)
      | RECORD_HISTORY \<Rightarrow> finish_recording_history reply s
      | _ \<Rightarrow> (if state_is_load_data reply then s\<lparr>m_routing_state := LOAD_DATA\<rparr> else s))"

definition clientReply :: "GWBUF \<Rightarrow> Reply \<Rightarrow> client \<Rightarrow> client" where
  "clientReply buffer reply s =
     (let (buffer1, s1) =
            (if m_num_responses s = 1
             then (case settle_changing_state buffer reply s of
                     (b, t) \<Rightarrow> (b, settle_routing_state reply t))
             else (buffer, s));
          s2 = (if m_command s1 = MXS_COM_BINLOG_DUMP then s1
                else if is_complete reply \<and> \<not> is_unexpected_error reply
                     then s1\<lparr>m_num_responses := m_num_responses s1 - 1\<rparr>
                     else s1)
      in s2\<lparr>writeq := writeq s2 @ [buffer1]\<rparr>)"

text \<open>
  \<open>route_statement\<close>, in two steps. \<open>prepare_route\<close> is everything before the call of
  \<open>m_downstream->routeQuery\<close>: the id and history bookkeeping and the routing state of a
  recorded command; it gives \<open>expecting_response\<close>, the buffer as it is routed and the
  state in which the downstream component is called. \<open>will_respond\<close> is
  \<open>mxs_mysql_command_will_respond\<close>, which is not among the sources. \<open>route\<close> is the
  \<open>routeQuery\<close> of the downstream component: it answers whether the packet was taken, and
  it runs with access to the client connection, on which it may call \<open>clientReply\<close> before
  it returns. The counter of expected responses is incremented after that call has
  returned true. The parser settings and the transaction tracker, which the function also
  updates, are not part of the state kept here.
\<close>

definition prepare_route :: "(mxs_cmd \<Rightarrow> bool) \<Rightarrow> GWBUF \<Rightarrow> client \<Rightarrow> bool \<times> GWBUF \<times> client" where
  "prepare_route will_respond buffer s =
     (case route_statement_ids buffer (sescmd s) of
        (recording, buffer', ss) \<Rightarrow>
          (let expecting_response = will_respond (command buffer);
               s1 = s\<lparr>sescmd := ss\<rparr>;
               s2 = (if recording then s1\<lparr>m_routing_state := RECORD_HISTORY\<rparr> else s1)
           in (expecting_response, buffer', s2\<lparr>downstream := downstream s2 @ [buffer']\<rparr>)))"

definition route_statement ::
  "(mxs_cmd \<Rightarrow> bool) \<Rightarrow> (GWBUF \<Rightarrow> client \<Rightarrow> bool \<times> client) \<Rightarrow> GWBUF \<Rightarrow> client \<Rightarrow> bool \<times> client" where
  "route_statement will_respond route buffer s =
     (case prepare_route will_respond buffer s of
        (expecting_response, buffer', s3) \<Rightarrow>
          (case route buffer' s3 of
             (ok, s4) \<Rightarrow>
               if ok \<and> expecting_response
               then (ok, s4\<lparr>m_num_responses := m_num_responses s4 + 1\<rparr>)
               else (ok, s4)))"


definition replying_route :: "GWBUF \<Rightarrow> Reply \<Rightarrow> GWBUF \<Rightarrow> client \<Rightarrow> bool \<times> client" where
  "replying_route reply_buffer reply buffer s = (True, clientReply reply_buffer reply s)"




text \<open>Fixtures: an idle client on a fresh session, the same client with a change-user to
  \<open>bob\<close> staged, and replies of three kinds: OK, error, and an error that the server
  sent unasked.\<close>

definition idle_client :: client where
  "idle_client =
     \<lparr>sescmd = fresh_sescmd_state, m_num_responses = 0, m_routing_state = PACKET_START,
      m_changing_state = ChangingState_NONE, m_pending_value = [],
      current_db = ''test'', role = ''reader'',
      auth_data = Some \<lparr>user = ''alice'', default_db = ''test'', default_role = ''reader''\<rparr>,
      change_user_auth_data = None, change_user_auth_data_bu = None,
      change_user_client_query = None, m_command = MXS_COM_OTHER 3, m_next_sequence = 1,
      writeq = [], downstream = []\<rparr>"


definition ok_reply :: Reply where
  "ok_reply = \<lparr>is_complete = True, is_ok = True, is_unexpected_error = False, state_is_load_data = False\<rparr>"



section \<open>Client protocol: reading the handshake response (mariadb\_client.cc)\<close>

datatype StateMachineRes = IN_PROGRESS | DONE | ERROR

datatype HSState =
    HSState_INIT
  | EXPECT_PROXY_HDR
  | EXPECT_SSL_REQ
  | SSL_NEG
  | EXPECT_HS_RESP
  | HSState_COMPLETE
  | HSState_FAIL

datatype SSLState = SSLState_COMPLETE | SSLState_INCOMPLETE | SSLState_FAIL | SSLState_NOT_CAPABLE

datatype State = HANDSHAKING | AUTHENTICATING | CHANGING_USER | READY | FAILED | QUIT

text \<open>
  An error packet as \<open>send_mysql_err_packet\<close> builds it, by the arguments of
  \<open>mariadb::create_error_packet\<close>: sequence number, error number, SQLSTATE and message.
\<close>

record err_packet =
  err_seq :: "8 word"
  mysql_errno :: int
  sqlstate :: string
  mysql_message :: string

definition ER_OUT_OF_ORDER :: int where
  "ER_OUT_OF_ORDER = 1156"

definition PACKETS_OOO_MSG :: string where
  "PACKETS_OOO_MSG = ''Got packets out of order''"

definition ER_BAD_HANDSHAKE :: int where
  "ER_BAD_HANDSHAKE = 1043"

definition BAD_HANDSHAKE_MSG :: string where
  "BAD_HANDSHAKE_MSG = ''Bad handshake''"

definition BAD_SSL_HANDSHAKE_MSG :: string where
  "BAD_SSL_HANDSHAKE_MSG = ''Bad SSL handshake''"

definition HANDSHAKE_ERRSTATE :: string where
  "HANDSHAKE_ERRSTATE = ''08S01''"

definition CLIENT_CAPABILITIES_LEN :: nat where
  "CLIENT_CAPABILITIES_LEN = 32"

definition SSL_REQUEST_PACKET_SIZE :: nat where
  "SSL_REQUEST_PACKET_SIZE = MYSQL_HEADER_LEN + CLIENT_CAPABILITIES_LEN"

text \<open>
  Modelled from the spec: \<open>MYSQL_AUTH_PACKET_BASE_SIZE\<close> and \<open>MYSQL_PACKET_LENGTH_MAX\<close> are
  declared in a protocol header that is not among the sources. A HandshakeResponse is
  "\<open>\<ge>\<close> 38 bytes, \<open>\<le>\<close> 2^24 - 2 bytes" and the largest payload of a frame is 2^24 - 1 bytes, so
  the base size is 36 (the header and the 32-byte capability block).
\<close>

definition MYSQL_AUTH_PACKET_BASE_SIZE :: nat where
  "MYSQL_AUTH_PACKET_BASE_SIZE = 36"

definition MYSQL_PACKET_LENGTH_MAX :: nat where
  "MYSQL_PACKET_LENGTH_MAX = 16777215"

definition NORMAL_HS_RESP_MIN_SIZE :: nat where
  "NORMAL_HS_RESP_MIN_SIZE = MYSQL_AUTH_PACKET_BASE_SIZE + 2"

definition NORMAL_HS_RESP_MAX_SIZE :: nat where
  "NORMAL_HS_RESP_MAX_SIZE = MYSQL_PACKET_LENGTH_MAX - 1"

text \<open>
  Modelled from the spec: \<open>mariadb::get_header\<close> is not among the sources. A frame starts with
  the "3-byte little-endian payload length" and the "1-byte sequence number". The buffers it
  is applied to hold at least the four header bytes.
\<close>

definition header_pl_length :: "8 word list \<Rightarrow> nat" where
  "header_pl_length bytes = unat (bytes ! 0) + 256 * unat (bytes ! 1) + 65536 * unat (bytes ! 2)"

definition header_seq :: "8 word list \<Rightarrow> 8 word" where
  "header_seq bytes = bytes ! 3"

text \<open>
  The connection during the handshake. The descriptor class (DCB) is not among the sources;
  it is modelled by how these functions use it: \<open>avail\<close> are the bytes that have arrived from
  the client and are not consumed yet, \<open>io_error\<close> says that reading the socket fails,
  \<open>hs_writeq\<close> collects the error packets written to the client, \<open>read_events\<close> counts
  \<open>trigger_read_event\<close>.
\<close>

record hs_conn =
  m_handshake_state :: HSState
  hs_next_sequence :: "8 word"
  avail :: "8 word list"
  io_error :: bool
  hs_writeq :: "err_packet list"
  read_events :: nat
  client_conn_encrypted :: bool

text \<open>
  What the rest of the server answers during one call of \<open>process_handshake\<close>: whether proxy
  networks are configured, whether the listener requires TLS, the results of
  \<open>read_proxy_header\<close> and of \<open>ssl_authenticate_check_status\<close>, the two packet parsers, and
  the text of the access-denied message.
\<close>

record hs_env =
  proxyproto_on :: bool
  require_ssl :: bool
  proxy_read_res :: StateMachineRes
  ssl_status :: SSLState
  parse_ssl_request_packet :: "8 word list \<Rightarrow> bool"
  parse_handshake_response_packet :: "8 word list \<Rightarrow> bool"
  access_denied_msg :: string

text \<open>
  \<open>m_dcb->read(minbytes, maxbytes)\<close> and \<open>read_strict\<close>: nothing when fewer than \<open>minbytes\<close>
  bytes are there, at most \<open>maxbytes\<close> otherwise; the flag is false on an I/O error.
  \<open>m_dcb->unread(buffer)\<close> puts the bytes back in front.
\<close>

definition dcb_read :: "nat \<Rightarrow> nat \<Rightarrow> hs_conn \<Rightarrow> (bool \<times> 8 word list) \<times> hs_conn" where
  "dcb_read minbytes maxbytes s =
     (if io_error s then ((False, []), s)
      else if length (avail s) < minbytes then ((True, []), s)
      else ((True, take maxbytes (avail s)), s\<lparr>avail := drop maxbytes (avail s)\<rparr>))"

definition dcb_unread :: "8 word list \<Rightarrow> hs_conn \<Rightarrow> hs_conn" where
  "dcb_unread buffer s = s\<lparr>avail := buffer @ avail s\<rparr>"

definition send_mysql_err_packet :: "int \<Rightarrow> string \<Rightarrow> string \<Rightarrow> hs_conn \<Rightarrow> hs_conn" where
  "send_mysql_err_packet errno state msg s =
     s\<lparr>hs_writeq := hs_writeq s @
        [\<lparr>err_seq = hs_next_sequence s, mysql_errno = errno, sqlstate = state, mysql_message = msg\<rparr>]\<rparr>"

text \<open>\<open>read_handshake_response(expected_seq)\<close>: the result, the returned buffer, the new state.\<close>

definition read_handshake_response :: "int \<Rightarrow> hs_conn \<Rightarrow> StateMachineRes \<times> 8 word list \<times> hs_conn" where
  "read_handshake_response expected_seq s0 =
     (case dcb_read MYSQL_HEADER_LEN NORMAL_HS_RESP_MAX_SIZE s0 of
        ((read_ok, buffer), s) \<Rightarrow>
          if buffer \<noteq> []
          then (let prot_packet_len = MYSQL_HEADER_LEN + header_pl_length buffer;
                    s1 = s\<lparr>hs_next_sequence := header_seq buffer + 1\<rparr>
                in if prot_packet_len \<ge> NORMAL_HS_RESP_MIN_SIZE \<and> prot_packet_len \<le> NORMAL_HS_RESP_MAX_SIZE
                   then (if uint (header_seq buffer) = expected_seq
                         then (if length buffer \<ge> prot_packet_len
                               then (let rval_buf = take prot_packet_len buffer;
                                         rest = drop prot_packet_len buffer
                                     in if rest \<noteq> []
                                        then (DONE, rval_buf,
                                              (dcb_unread rest s1)\<lparr>read_events := read_events s1 + 1\<rparr>)
                                        else (DONE, rval_buf, s1))
                               else (IN_PROGRESS, [], dcb_unread buffer s1))
                         else (ERROR, [],
                               send_mysql_err_packet ER_OUT_OF_ORDER HANDSHAKE_ERRSTATE PACKETS_OOO_MSG s1))
                   else (ERROR, [],
                         send_mysql_err_packet ER_BAD_HANDSHAKE HANDSHAKE_ERRSTATE BAD_HANDSHAKE_MSG s1))
          else if read_ok then (IN_PROGRESS, [], s)
          else (ERROR, [], s))"

text \<open>
  \<open>read_ssl_request\<close>. A client that answers with a full handshake response instead of the
  36-byte request has its bytes put back and read again as a handshake response.
\<close>

definition read_ssl_request :: "hs_conn \<Rightarrow> StateMachineRes \<times> 8 word list \<times> hs_conn" where
  "read_ssl_request s0 =
     (case dcb_read MYSQL_HEADER_LEN SSL_REQUEST_PACKET_SIZE s0 of
        ((read_ok, buffer), s) \<Rightarrow>
          if buffer \<noteq> []
          then (let s1 = s\<lparr>hs_next_sequence := header_seq buffer + 1\<rparr>;
                    prot_packet_len = MYSQL_HEADER_LEN + header_pl_length buffer
                in if prot_packet_len = SSL_REQUEST_PACKET_SIZE
                   then (if uint (header_seq buffer) = 1
                         then (if length buffer = SSL_REQUEST_PACKET_SIZE
                               then (DONE, buffer, s1)
                               else (IN_PROGRESS, [], dcb_unread buffer s1))
                         else (ERROR, [],
                               send_mysql_err_packet ER_OUT_OF_ORDER HANDSHAKE_ERRSTATE PACKETS_OOO_MSG s1))
                   else if prot_packet_len \<ge> NORMAL_HS_RESP_MIN_SIZE
                   then (case read_handshake_response 1 (dcb_unread buffer s1) of
                           (hs_res, hs_buffer, s2) \<Rightarrow>
                             (hs_res, if hs_res = DONE then hs_buffer else [], s2))
                   else (ERROR, [],
                         send_mysql_err_packet ER_BAD_HANDSHAKE HANDSHAKE_ERRSTATE BAD_SSL_HANDSHAKE_MSG s1))
          else if read_ok then (IN_PROGRESS, [], s)
          else (ERROR, [], s))"

text \<open>
  One turn of the \<open>while\<close> loop of \<open>process_handshake\<close>: whether the loop goes on, the value
  of \<open>rval\<close> if this turn sets it, and the new state.
\<close>

definition process_handshake_turn :: "hs_env \<Rightarrow> hs_conn \<Rightarrow> bool \<times> StateMachineRes option \<times> hs_conn" where
  "process_handshake_turn env s =
     (case m_handshake_state s of
        HSState_INIT \<Rightarrow>
          (True, None,
           s\<lparr>hs_next_sequence := 1,
             m_handshake_state :=
               (if proxyproto_on env then EXPECT_PROXY_HDR
                else if require_ssl env then EXPECT_SSL_REQ else EXPECT_HS_RESP)\<rparr>)
      | EXPECT_PROXY_HDR \<Rightarrow>
          (if proxy_read_res env = DONE
           then (True, None,
                 s\<lparr>m_handshake_state := (if require_ssl env then EXPECT_SSL_REQ else EXPECT_HS_RESP)\<rparr>)
           else if proxy_read_res env = IN_PROGRESS then (False, None, s)
           else (True, None, s\<lparr>m_handshake_state := HSState_FAIL\<rparr>))
      | EXPECT_SSL_REQ \<Rightarrow>
          (case read_ssl_request s of
             (res, buffer, s1) \<Rightarrow>
               if res = DONE
               then (if parse_ssl_request_packet env buffer
                     then (True, None, s1\<lparr>m_handshake_state := SSL_NEG\<rparr>)
                     else if parse_handshake_response_packet env buffer
                     then (True, None,
                           (send_mysql_err_packet 1045 ''28000'' (access_denied_msg env) s1)
                             \<lparr>m_handshake_state := HSState_FAIL\<rparr>)
                     else (True, None,
                           (send_mysql_err_packet ER_BAD_HANDSHAKE HANDSHAKE_ERRSTATE BAD_SSL_HANDSHAKE_MSG s1)
                             \<lparr>m_handshake_state := HSState_FAIL\<rparr>))
               else if res = IN_PROGRESS then (False, None, s1)
               else (True, None, s1\<lparr>m_handshake_state := HSState_FAIL\<rparr>))
      | SSL_NEG \<Rightarrow>
          (if ssl_status env = SSLState_COMPLETE
           then (True, None, s\<lparr>m_handshake_state := EXPECT_HS_RESP, client_conn_encrypted := True\<rparr>)
           else if ssl_status env = SSLState_INCOMPLETE then (False, None, s)
           else (True, None,
                 (send_mysql_err_packet 1045 ''28000'' ''Access without SSL denied'' s)
                   \<lparr>m_handshake_state := HSState_FAIL\<rparr>))
      | EXPECT_HS_RESP \<Rightarrow>
          (let expected_seq = (if require_ssl env then 2 else 1)
           in case read_handshake_response expected_seq s of
                (res, buffer, s1) \<Rightarrow>
                  if res = DONE
                  then (if parse_handshake_response_packet env buffer
                        then (True, None, s1\<lparr>m_handshake_state := HSState_COMPLETE\<rparr>)
                        else (True, None,
                              (send_mysql_err_packet ER_BAD_HANDSHAKE HANDSHAKE_ERRSTATE BAD_HANDSHAKE_MSG s1)
                                \<lparr>m_handshake_state := HSState_FAIL\<rparr>))
                  else if res = IN_PROGRESS then (False, None, s1)
                  else (True, None, s1\<lparr>m_handshake_state := HSState_FAIL\<rparr>))
      | HSState_COMPLETE \<Rightarrow> (False, Some DONE, s)
      | HSState_FAIL \<Rightarrow> (False, Some ERROR, s))"

text \<open>How far a handshake state is from the two final ones; every turn that goes on moves closer.\<close>

fun hs_turns_left :: "HSState \<Rightarrow> nat" where
  "hs_turns_left HSState_INIT = 5"
| "hs_turns_left EXPECT_PROXY_HDR = 4"
| "hs_turns_left EXPECT_SSL_REQ = 3"
| "hs_turns_left SSL_NEG = 2"
| "hs_turns_left EXPECT_HS_RESP = 1"
| "hs_turns_left HSState_COMPLETE = 0"
| "hs_turns_left HSState_FAIL = 0"

text \<open>
  \<open>process_handshake\<close>: the loop runs turns until one stops it; \<open>rval\<close> starts as
  \<open>IN_PROGRESS\<close> and is what the stopping turn sets. The second half of the loop test is
  there for the termination proof: it holds whenever a turn asks to go on
  (\<open>process_handshake_turn_progress\<close>), so the function satisfies the equation of the
  source's loop (\<open>process_handshake_unfold\<close>).
\<close>

function process_handshake :: "hs_env \<Rightarrow> hs_conn \<Rightarrow> StateMachineRes \<times> hs_conn" where
  "process_handshake env s =
     (case process_handshake_turn env s of
        (state_machine_continue, rval, s') \<Rightarrow>
          if state_machine_continue
             \<and> hs_turns_left (m_handshake_state s') < hs_turns_left (m_handshake_state s)
          then process_handshake env s'
          else (case rval of None \<Rightarrow> (IN_PROGRESS, s') | Some r \<Rightarrow> (r, s')))"
  by pat_completeness auto
termination
  by (relation "measure (\<lambda>(env, s). hs_turns_left (m_handshake_state s))") auto

declare process_handshake.simps [simp del]

text \<open>
  The \<open>HANDSHAKING\<close> case of \<open>ready_for_reading\<close>, up to the point where the connection
  leaves that state: the new \<open>m_state\<close>, whether \<open>m_session->kill()\<close> is called, and the
  connection. \<open>FAILED\<close> ends the loop and the session is killed; \<open>AUTHENTICATING\<close> goes on
  with the authentication, which starts from the state returned here.
\<close>

definition ready_for_reading_handshake :: "hs_env \<Rightarrow> hs_conn \<Rightarrow> State \<times> bool \<times> hs_conn" where
  "ready_for_reading_handshake env s =
     (case process_handshake env s of
        (IN_PROGRESS, s') \<Rightarrow> (HANDSHAKING, False, s')
      | (DONE, s') \<Rightarrow> (AUTHENTICATING, False, s')
      | (ERROR, s') \<Rightarrow> (FAILED, True, s'))"

text \<open>Fixtures: a listener without proxy networks and without TLS, a connection that has just
  been accepted, and a 38-byte handshake response frame with a given sequence number.\<close>

definition plain_listener :: hs_env where
  "plain_listener =
     \<lparr>proxyproto_on = False, require_ssl = False, proxy_read_res = DONE,
      ssl_status = SSLState_COMPLETE, parse_ssl_request_packet = (\<lambda>_. False),
      parse_handshake_response_packet = (\<lambda>_. True), access_denied_msg = ''Access denied''\<rparr>"

definition accepted_conn :: "8 word list \<Rightarrow> hs_conn" where
  "accepted_conn bytes =
     \<lparr>m_handshake_state = HSState_INIT, hs_next_sequence = 0, avail = bytes, io_error = False,
      hs_writeq = [], read_events = 0, client_conn_encrypted = False\<rparr>"

definition hs_response_frame :: "8 word \<Rightarrow> 8 word list" where
  "hs_response_frame seq = [34, 0, 0, seq] @ replicate 34 0"

section \<open>Backend endpoint (server.cc, internal/server.hh)\<close>

datatype ConnStatus =
    NO_CONN
  | CONNECTED
  | CONNECTED_FAILED
  | IDLE_POOLED
  | WAITING_FOR_CONN

datatype ContinueRes = SUCCESS | WAIT | FAIL

text \<open>
  The endpoint. \<open>m_conn\<close> is the backend connection it holds (a handle, \<open>None\<close> for
  \<open>nullptr\<close>); \<open>conn_received\<close> collects the packets passed to \<open>m_conn->routeQuery\<close>, in
  order; \<open>packets_counted\<close> counts \<open>stats().add_packet()\<close>; \<open>in_wait_list\<close> says that the
  worker has a wait entry for the endpoint.
\<close>

record ServerEndpoint =
  m_connstatus :: ConnStatus
  m_conn :: "nat option"
  m_delayed_packets :: "GWBUF list"
  conn_received :: "GWBUF list"
  packets_counted :: nat
  in_wait_list :: bool

text \<open>
  What the worker, the session and the backend protocol answer during one call: the result
  of \<open>get_backend_connection\<close> (a connection or not, and whether the connection limit was
  reached), whether idle pooling is on for the session, and what the backend connection's
  \<open>routeQuery\<close> returns for a packet.
\<close>

record endpoint_env =
  res_conn :: "nat option"
  res_conn_limit_reached :: bool
  idle_pooling_enabled :: bool
  conn_routeQuery :: "GWBUF \<Rightarrow> bool"

text \<open>
  \<open>connect\<close>: it throws after having set the state, so the result is whether an exception
  left the function, with the state as it is then.
\<close>

definition connect :: "endpoint_env \<Rightarrow> ServerEndpoint \<Rightarrow> bool \<times> ServerEndpoint" where
  "connect env s =
     (case res_conn env of
        Some c \<Rightarrow> (False, s\<lparr>m_conn := Some c, m_connstatus := CONNECTED\<rparr>)
      | None \<Rightarrow>
          if res_conn_limit_reached env
          then (if idle_pooling_enabled env
                then (False, s\<lparr>m_connstatus := WAITING_FOR_CONN, in_wait_list := True\<rparr>)
                else (True, s))
          else (True, s\<lparr>m_connstatus := NO_CONN\<rparr>))"

definition forward_to_conn :: "endpoint_env \<Rightarrow> GWBUF \<Rightarrow> ServerEndpoint \<Rightarrow> bool \<times> ServerEndpoint" where
  "forward_to_conn env buffer s =
     (conn_routeQuery env buffer,
      s\<lparr>conn_received := conn_received s @ [buffer], packets_counted := packets_counted s + 1\<rparr>)"

text \<open>
  \<open>ServerEndpoint::routeQuery\<close>: the switch on the connection status. The operation kind
  computed at the top only feeds the query timer and is left out.
\<close>

definition routeQuery :: "endpoint_env \<Rightarrow> GWBUF \<Rightarrow> ServerEndpoint \<Rightarrow> bool \<times> ServerEndpoint" where
  "routeQuery env buffer s =
     (case m_connstatus s of
        NO_CONN \<Rightarrow> (False, s)
      | CONNECTED_FAILED \<Rightarrow> (False, s)
      | CONNECTED \<Rightarrow> forward_to_conn env buffer s
      | IDLE_POOLED \<Rightarrow>
          (case connect env s of
             (True, s1) \<Rightarrow> (False, s1)
           | (False, s1) \<Rightarrow>
               if m_connstatus s1 = CONNECTED
               then forward_to_conn env buffer s1
               else (True, s1\<lparr>m_delayed_packets := m_delayed_packets s1 @ [buffer]\<rparr>))
      | WAITING_FOR_CONN \<Rightarrow> (True, s\<lparr>m_delayed_packets := m_delayed_packets s @ [buffer]\<rparr>))"

text \<open>
  The loop of \<open>continue_connecting\<close> over the delayed packets: each is passed to the
  connection until one is refused. The result is \<open>success\<close> and the packets passed.
\<close>

fun send_delayed :: "(GWBUF \<Rightarrow> bool) \<Rightarrow> GWBUF list \<Rightarrow> bool \<times> GWBUF list" where
  "send_delayed rq [] = (True, [])"
| "send_delayed rq (packet # packets) =
     (if rq packet
      then (case send_delayed rq packets of (success, sent) \<Rightarrow> (success, packet # sent))
      else (False, [packet]))"

definition continue_connecting :: "endpoint_env \<Rightarrow> ServerEndpoint \<Rightarrow> ContinueRes \<times> ServerEndpoint" where
  "continue_connecting env s =
     (case res_conn env of
        Some c \<Rightarrow>
          (case send_delayed (conn_routeQuery env) (m_delayed_packets s) of
             (success, sent) \<Rightarrow>
               (let s1 = s\<lparr>m_conn := Some c, m_connstatus := CONNECTED,
                           conn_received := conn_received s @ sent, m_delayed_packets := []\<rparr>
                in if success then (SUCCESS, s1)
                   else (FAIL, s1\<lparr>m_connstatus := CONNECTED_FAILED\<rparr>)))
      | None \<Rightarrow>
          if res_conn_limit_reached env then (WAIT, s)
          else (FAIL, s\<lparr>m_connstatus := NO_CONN\<rparr>))"

text \<open>Fixtures: a worker that hands out connection 1, and an endpoint whose connection sits
  in the pool.\<close>

definition conn_available :: endpoint_env where
  "conn_available =
     \<lparr>res_conn = Some 1, res_conn_limit_reached = False, idle_pooling_enabled = True,
      conn_routeQuery = (\<lambda>_. True)\<rparr>"

definition pooled_endpoint :: ServerEndpoint where
  "pooled_endpoint =
     \<lparr>m_connstatus = IDLE_POOLED, m_conn = None, m_delayed_packets = [], conn_received = [],
      packets_counted = 0, in_wait_list = False\<rparr>"

section \<open>KILL: resolving the target session (mariadb\_client.cc)\<close>

text \<open>
  The states of a session and the reasons for closing one that the code names; the
  enumerations are declared in headers that are not among the sources.
\<close>

datatype session_state = CREATED | STARTED | STOPPING | session_state_other nat

datatype session_close_t =
    SESSION_CLOSE_NONE
  | SESSION_CLOSE_KILLED
  | SESSION_CLOSE_ROUTING_FAILED

text \<open>
  A backend connection of a session: the thread id the server gave it (0 while the
  connection is not established), its server and its descriptor.
\<close>

record backend_conn =
  thread_id :: "64 word"
  conn_server :: nat
  conn_dcb :: nat

text \<open>
  A session as the registry of a worker holds it. \<open>hangups\<close> collects the descriptors that
  were sent a hangup event.
\<close>

record MXS_SESSION =
  ses_id :: "64 word"
  protocol_name :: string
  backend_connections :: "backend_conn list"
  close_reason :: session_close_t
  hangups :: "nat list"

text \<open>
  \<open>ConnKillInfo\<close>: the id of the session to kill, the text of the query up to the thread
  id, the set of target servers (kept as a sorted list without repetitions, the order in
  which a \<open>std::set\<close> is walked) and the thread id to kill on each.
\<close>

record ConnKillInfo =
  target_ses_id :: "64 word"
  query_base :: string
  targets :: "nat list"
  be_thread_ids :: "nat \<rightharpoonup> 64 word"

definition targets_insert :: "nat \<Rightarrow> nat list \<Rightarrow> nat list" where
  "targets_insert srv ts = (if srv \<in> set ts then ts else insort srv ts)"

definition registry_lookup :: "64 word \<Rightarrow> MXS_SESSION list \<Rightarrow> MXS_SESSION option" where
  "registry_lookup i sessions = find (\<lambda>ses. ses_id ses = i) sessions"

text \<open>
  The first loop of \<open>ConnKillInfo::generate_target_list\<close>: a connection with a thread id
  gives a target, one without is collected as incomplete.
\<close>

fun collect_targets :: "backend_conn list \<Rightarrow> ConnKillInfo \<Rightarrow> nat list \<Rightarrow> ConnKillInfo \<times> nat list" where
  "collect_targets [] info incomplete_conns = (info, incomplete_conns)"
| "collect_targets (conn # conns) info incomplete_conns =
     (if thread_id conn \<noteq> 0
      then collect_targets conns
             (info\<lparr>targets := targets_insert (conn_server conn) (targets info),
                   be_thread_ids := (be_thread_ids info)(conn_server conn \<mapsto> thread_id conn)\<rparr>)
             incomplete_conns
      else collect_targets conns info (incomplete_conns @ [conn_dcb conn]))"

text \<open>The second loop: every incomplete connection marks the session as killed and is hung up.\<close>

fun hangup_incomplete :: "nat list \<Rightarrow> MXS_SESSION \<Rightarrow> MXS_SESSION" where
  "hangup_incomplete [] session = session"
| "hangup_incomplete (dcb # dcbs) session =
     hangup_incomplete dcbs
       (session\<lparr>close_reason := SESSION_CLOSE_KILLED, hangups := hangups session @ [dcb]\<rparr>)"

text \<open>
  \<open>ConnKillInfo::generate_target_list\<close> on one worker. \<open>mariadb_name\<close> is the value of the
  macro \<open>MXS_MARIADB_PROTOCOL_NAME\<close>, which is defined in a header that is not among the
  sources. The result is the kill information and the worker's sessions after the call.
\<close>

definition generate_target_list ::
  "string \<Rightarrow> MXS_SESSION list \<Rightarrow> ConnKillInfo \<Rightarrow> ConnKillInfo \<times> MXS_SESSION list" where
  "generate_target_list mariadb_name sessions info =
     (case registry_lookup (target_ses_id info) sessions of
        None \<Rightarrow> (info, sessions)
      | Some session \<Rightarrow>
          if protocol_name session = mariadb_name
          then (case collect_targets (backend_connections session) info [] of
                  (info', incomplete_conns) \<Rightarrow>
                    (info',
                     map (\<lambda>ses. if ses_id ses = ses_id session
                                then hangup_incomplete incomplete_conns ses else ses)
                         sessions))
          else (info, sessions))"

text \<open>
  \<open>execute_concurrently(search_targets)\<close>: every routing worker runs
  \<open>generate_target_list\<close> on its own sessions; the updates of the shared kill information
  are serialised by \<open>targets_lock\<close>, so the outcome is that of running the workers one
  after the other.
\<close>

fun search_targets :: "string \<Rightarrow> MXS_SESSION list list \<Rightarrow> ConnKillInfo \<Rightarrow> ConnKillInfo \<times> MXS_SESSION list list" where
  "search_targets mariadb_name [] info = (info, [])"
| "search_targets mariadb_name (sessions # workers) info =
     (case generate_target_list mariadb_name sessions info of
        (info1, sessions') \<Rightarrow>
          (case search_targets mariadb_name workers info1 of
             (info2, workers') \<Rightarrow> (info2, sessions' # workers')))"

text \<open>
  The client connection that issued the KILL: its auxiliary clients (the server each
  talks to and whether it is still open), the state of its session, whether its
  descriptor is open, the KILL queries queued so far (server, query text, thread id), the
  number of OK packets written to the client in answer to a KILL, and whether the session
  was killed.
\<close>

record kill_client =
  m_local_clients :: "(nat \<times> bool) list"
  kill_session_state :: session_state
  dcb_is_open :: bool
  queued_kills :: "(nat \<times> string \<times> 64 word) list"
  kill_responses :: nat
  session_killed :: bool

text \<open>
  What the rest of the server answers while the KILL runs: whether the main worker takes
  the task, and for each target server whether a \<open>LocalClient\<close> can be created, connected
  and given the query.
\<close>

record kill_env =
  main_worker_executes :: bool
  local_client_created :: "nat \<Rightarrow> bool"
  local_client_connects :: "nat \<Rightarrow> bool"
  query_queued :: "nat \<Rightarrow> bool"

definition have_local_clients :: "kill_client \<Rightarrow> bool" where
  "have_local_clients c = list_ex snd (m_local_clients c)"

text \<open>
  \<open>send_ok_for_kill\<close>, the callback of a KILL sent by a client: the OK packet is written
  only if the descriptor is still open.
\<close>

definition send_ok_for_kill :: "kill_client \<Rightarrow> kill_client" where
  "send_ok_for_kill c = (if dcb_is_open c then c\<lparr>kill_responses := kill_responses c + 1\<rparr> else c)"

text \<open>\<open>maybe_send_kill_response\<close> calls the callback it is given.\<close>

definition maybe_send_kill_response :: "(kill_client \<Rightarrow> kill_client) \<Rightarrow> kill_client \<Rightarrow> kill_client" where
  "maybe_send_kill_response send_kill_resp c =
     (if \<not> have_local_clients c \<and> kill_session_state c = STARTED
      then send_kill_resp c
      else c)"

definition add_local_client :: "nat \<Rightarrow> kill_client \<Rightarrow> kill_client" where
  "add_local_client srv c = c\<lparr>m_local_clients := filter snd (m_local_clients c) @ [(srv, True)]\<rparr>"

text \<open>
  The loop of \<open>kill_connections\<close> over the targets: a client is created, connected and
  given the query \<open>query_base\<close> followed by the backend thread id; when all three succeed
  it joins the auxiliary clients.
\<close>

fun kill_connections :: "kill_env \<Rightarrow> ConnKillInfo \<Rightarrow> nat list \<Rightarrow> kill_client \<Rightarrow> kill_client" where
  "kill_connections env info [] c = c"
| "kill_connections env info (a # as) c =
     kill_connections env info as
       (if local_client_created env a \<and> local_client_connects env a
        then (case be_thread_ids info a of
                Some tid \<Rightarrow>
                  if query_queued env a
                  then add_local_client a (c\<lparr>queued_kills := queued_kills c @ [(a, query_base info, tid)]\<rparr>)
                  else c
              | None \<Rightarrow> c)
        else c)"

text \<open>
  \<open>execute_kill\<close>: when the main worker does not take the task the session is killed;
  otherwise the targets are searched on every worker, the KILL queries are sent, and the
  callback is called at once if nothing is left to wait for.
\<close>

definition execute_kill ::
  "kill_env \<Rightarrow> string \<Rightarrow> MXS_SESSION list list \<Rightarrow> ConnKillInfo \<Rightarrow> (kill_client \<Rightarrow> kill_client)
     \<Rightarrow> kill_client \<Rightarrow> kill_client \<times> ConnKillInfo \<times> MXS_SESSION list list" where
  "execute_kill env mariadb_name workers info kill_resp c =
     (if main_worker_executes env
      then (case search_targets mariadb_name workers info of
              (info', workers') \<Rightarrow>
                (maybe_send_kill_response kill_resp (kill_connections env info' (targets info') c),
                 info', workers'))
      else (c\<lparr>session_killed := True\<rparr>, info, workers))"

text \<open>
  \<open>execute_kill_connection\<close>: the kill information for a session id, with
  \<open>send_ok_for_kill\<close> as the callback.
\<close>

definition new_ConnKillInfo :: "64 word \<Rightarrow> string \<Rightarrow> ConnKillInfo" where
  "new_ConnKillInfo i query =
     \<lparr>target_ses_id = i, query_base = query, targets = [], be_thread_ids = Map.empty\<rparr>"

definition execute_kill_connection ::
  "kill_env \<Rightarrow> string \<Rightarrow> MXS_SESSION list list \<Rightarrow> 64 word \<Rightarrow> string \<Rightarrow> kill_client
     \<Rightarrow> kill_client \<times> ConnKillInfo \<times> MXS_SESSION list list" where
  "execute_kill_connection env mariadb_name workers target_id query c =
     execute_kill env mariadb_name workers (new_ConnKillInfo target_id query) send_ok_for_kill c"

text \<open>
  On a worker's sessions, the id \<open>i\<close> names no session of the MariaDB protocol: either no
  session has that id or the one that has it speaks another protocol.
\<close>

definition no_mariadb_target :: "string \<Rightarrow> 64 word \<Rightarrow> MXS_SESSION list \<Rightarrow> bool" where
  "no_mariadb_target mariadb_name i sessions =
     (case registry_lookup i sessions of
        None \<Rightarrow> True
      | Some session \<Rightarrow> protocol_name session \<noteq> mariadb_name)"

text \<open>Fixtures: a worker that takes every task, a session 7 of another protocol with one
  established and one pending backend connection, and an initiating client that is started,
  connected and idle.\<close>

definition willing_env :: kill_env where
  "willing_env =
     \<lparr>main_worker_executes = True, local_client_created = (\<lambda>_. True),
      local_client_connects = (\<lambda>_. True), query_queued = (\<lambda>_. True)\<rparr>"

definition other_protocol_session :: MXS_SESSION where
  "other_protocol_session =
     \<lparr>ses_id = 7, protocol_name = ''nosqlprotocol'',
      backend_connections =
        [\<lparr>thread_id = 41, conn_server = 1, conn_dcb = 10\<rparr>,
         \<lparr>thread_id = 0, conn_server = 2, conn_dcb = 11\<rparr>],
      close_reason = SESSION_CLOSE_NONE, hangups = []\<rparr>"

definition started_client :: kill_client where
  "started_client =
     \<lparr>m_local_clients = [], kill_session_state = STARTED, dcb_is_open = True,
      queued_kills = [], kill_responses = 0, session_killed = False\<rparr>"

section \<open>User cache lookup (user\_data.cc)\<close>

datatype DBNameCmpMode = CASE_SENSITIVE | LOWER_CASE | CASE_INSENSITIVE

datatype UserEntryType =
    USER_NOT_FOUND
  | ROOT_ACCESS_DENIED
  | ANON_PROXY_ACCESS_DENIED
  | DB_ACCESS_DENIED
  | BAD_DB
  | PLUGIN_IS_NOT_LOADED
  | USER_ACCOUNT_OK
  | NEED_NAMEINFO

text \<open>The fields of a user entry that the lookup reads or writes.\<close>

record UserEntry =
  username :: string
  host_pattern :: string
  plugin :: string
  proxy_priv :: bool

record UserEntryResult =
  entry :: UserEntry
  entry_type :: UserEntryType

text \<open>
  The user database as the lookup sees it: the set of database names, and the three
  searches whose code (host pattern matching, grants and roles with SQL \<open>LIKE\<close>) is taken
  as given: \<open>find_entry(user, ip)\<close>, \<open>find_entry(user)\<close> and \<open>check_database_access\<close>.
\<close>

record UserDatabase =
  m_database_names :: "string list"
  find_entry_by_host :: "string \<Rightarrow> string \<Rightarrow> UserEntry option"
  find_entry_by_name :: "string \<Rightarrow> UserEntry option"
  check_database_access :: "UserEntry \<Rightarrow> string \<Rightarrow> bool \<Rightarrow> bool"

text \<open>The settings of the listener and of the service that the lookup reads.\<close>

record UserSearchSettings =
  db_name_cmp_mode :: DBNameCmpMode
  match_host_pattern :: bool
  allow_anon_user :: bool
  allow_root_user :: bool

definition mysql_default_auth :: string where
  "mysql_default_auth = ''mysql_native_password''"

definition info_schema :: string where
  "info_schema = ''information_schema''"

text \<open>
  \<open>mxb::tolower\<close> and \<open>strcasecmp(a, b) == 0\<close> on byte strings: the letters \<open>A\<close> to \<open>Z\<close> are
  mapped to \<open>a\<close> to \<open>z\<close>, every other byte is kept.
\<close>

definition tolower_char :: "char \<Rightarrow> char" where
  "tolower_char c =
     (if (65::nat) \<le> of_char c \<and> of_char c \<le> (90::nat) then char_of (of_char c + (32::nat)) else c)"

definition tolower_str :: "string \<Rightarrow> string" where
  "tolower_str s = map tolower_char s"

definition strcasecmp_eq :: "string \<Rightarrow> string \<Rightarrow> bool" where
  "strcasecmp_eq a b = (tolower_str a = tolower_str b)"

text \<open>\<open>UserDatabase::check_database_exists\<close>.\<close>

definition check_database_exists :: "UserDatabase \<Rightarrow> string \<Rightarrow> bool \<Rightarrow> bool" where
  "check_database_exists userdb db case_sensitive_db =
     (if db \<in> set (m_database_names userdb) then True
      else if \<not> case_sensitive_db
           then list_ex (\<lambda>elem. strcasecmp_eq elem db) (m_database_names userdb)
           else False)"

definition generate_dummy_entry :: "string \<Rightarrow> UserEntry \<Rightarrow> UserEntry" where
  "generate_dummy_entry name output =
     output\<lparr>username := name, host_pattern := ''%'', plugin := mysql_default_auth\<rparr>"

text \<open>A default-constructed result: an empty entry and \<open>USER_NOT_FOUND\<close>.\<close>

definition empty_UserEntryResult :: UserEntryResult where
  "empty_UserEntryResult =
     \<lparr>entry = \<lparr>username = [], host_pattern = [], plugin = [], proxy_priv = False\<rparr>,
      entry_type = USER_NOT_FOUND\<rparr>"

text \<open>The effective database name and whether names are compared with case.\<close>

definition eff_requested_db :: "DBNameCmpMode \<Rightarrow> string \<Rightarrow> string" where
  "eff_requested_db mode requested_db =
     (case mode of
        CASE_SENSITIVE \<Rightarrow> requested_db
      | LOWER_CASE \<Rightarrow> tolower_str requested_db
      | CASE_INSENSITIVE \<Rightarrow> requested_db)"

definition case_sensitive_db :: "DBNameCmpMode \<Rightarrow> bool" where
  "case_sensitive_db mode = (mode = CASE_SENSITIVE)"

text \<open>
  The test of the second branch in \<open>find_user\<close>: the request is for
  \<open>information_schema\<close>, as the listener's mode compares names.
\<close>

definition is_info_schema :: "DBNameCmpMode \<Rightarrow> string \<Rightarrow> bool" where
  "is_info_schema mode requested_db =
     (eff_requested_db mode requested_db = info_schema
      \<or> (\<not> case_sensitive_db mode \<and> strcasecmp_eq (eff_requested_db mode requested_db) info_schema))"

text \<open>
  \<open>MariaDBUserCache::find_user\<close>, in the three blocks of the source: the result for a
  matching entry, the result for a matching anonymous entry, and the function itself with
  the checks that follow the search.
\<close>

definition found_result :: "UserDatabase \<Rightarrow> UserEntry \<Rightarrow> string \<Rightarrow> bool \<Rightarrow> UserEntryResult" where
  "found_result userdb found eff_db cs =
     (let res = empty_UserEntryResult\<lparr>entry := found\<rparr>
      in if eff_db \<noteq> []
         then (if \<not> check_database_exists userdb eff_db cs
               then res\<lparr>entry_type := BAD_DB\<rparr>
               else if eff_db = info_schema \<or> (\<not> cs \<and> strcasecmp_eq eff_db info_schema)
               then res\<lparr>entry_type := USER_ACCOUNT_OK\<rparr>
               else if \<not> check_database_access userdb found eff_db cs
               then res\<lparr>entry_type := DB_ACCESS_DENIED\<rparr>
               else res\<lparr>entry_type := USER_ACCOUNT_OK\<rparr>)
         else res\<lparr>entry_type := USER_ACCOUNT_OK\<rparr>)"

definition anon_result :: "UserDatabase \<Rightarrow> UserEntry \<Rightarrow> string \<Rightarrow> bool \<Rightarrow> UserEntryResult" where
  "anon_result userdb anon_found eff_db cs =
     (let res = empty_UserEntryResult\<lparr>entry := anon_found\<rparr>
      in if eff_db \<noteq> [] \<and> \<not> check_database_exists userdb eff_db cs
         then res\<lparr>entry_type := BAD_DB\<rparr>
         else if \<not> proxy_priv anon_found
         then res\<lparr>entry_type := ANON_PROXY_ACCESS_DENIED\<rparr>
         else res\<lparr>entry_type := USER_ACCOUNT_OK\<rparr>)"

definition search_result ::
  "UserDatabase \<Rightarrow> string \<Rightarrow> string \<Rightarrow> string \<Rightarrow> UserSearchSettings \<Rightarrow> UserEntryResult" where
  "search_result userdb name ip requested_db sett =
     (let eff_db = eff_requested_db (db_name_cmp_mode sett) requested_db;
          cs = case_sensitive_db (db_name_cmp_mode sett)
      in case (if match_host_pattern sett then find_entry_by_host userdb name ip
               else find_entry_by_name userdb name) of
           Some found \<Rightarrow> found_result userdb found eff_db cs
         | None \<Rightarrow>
             if allow_anon_user sett
             then (case (if match_host_pattern sett then find_entry_by_host userdb [] ip
                         else find_entry_by_name userdb []) of
                     Some anon_found \<Rightarrow> anon_result userdb anon_found eff_db cs
                   | None \<Rightarrow> empty_UserEntryResult)
             else empty_UserEntryResult)"

definition find_user ::
  "UserDatabase \<Rightarrow> string \<Rightarrow> string \<Rightarrow> string \<Rightarrow> UserSearchSettings \<Rightarrow> UserEntryResult" where
  "find_user userdb name ip requested_db sett =
     (let res = search_result userdb name ip requested_db sett
      in if entry_type res = USER_ACCOUNT_OK \<and> \<not> allow_root_user sett \<and> name = ''root''
         then res\<lparr>entry_type := ROOT_ACCESS_DENIED\<rparr>
         else if entry_type res = USER_NOT_FOUND
         then res\<lparr>entry := generate_dummy_entry name (entry res)\<rparr>
         else res)"

text \<open>Fixtures: a database that knows the user \<open>alice\<close> from any host, with no grant on any
  database, and a listener that compares names with case and matches host patterns.\<close>

definition alice_entry :: UserEntry where
  "alice_entry = \<lparr>username = ''alice'', host_pattern = ''%'', plugin = ''mysql_native_password'',
                   proxy_priv = False\<rparr>"

definition alice_database :: "string list \<Rightarrow> UserDatabase" where
  "alice_database names =
     \<lparr>m_database_names = names,
      find_entry_by_host = (\<lambda>u ip. if u = ''alice'' then Some alice_entry else None),
      find_entry_by_name = (\<lambda>u. if u = ''alice'' then Some alice_entry else None),
      check_database_access = (\<lambda>e db cs. False)\<rparr>"

definition strict_listener :: UserSearchSettings where
  "strict_listener =
     \<lparr>db_name_cmp_mode = CASE_SENSITIVE, match_host_pattern = True, allow_anon_user = False,
      allow_root_user = False\<rparr>"

section \<open>Read/write split: selecting a backend for a read (rwsplit\_select\_backends.cc)\<close>

text \<open>The status bits of a target (\<open>target.hh\<close>).\<close>

definition SERVER_RUNNING :: "64 word" where
  "SERVER_RUNNING = 1"

definition SERVER_MAINT :: "64 word" where
  "SERVER_MAINT = 2"

definition SERVER_MASTER :: "64 word" where
  "SERVER_MASTER = 8"

definition SERVER_SLAVE :: "64 word" where
  "SERVER_SLAVE = 16"

definition SERVER_RELAY :: "64 word" where
  "SERVER_RELAY = 2048"

definition status_is_slave :: "64 word \<Rightarrow> bool" where
  "status_is_slave status =
     (status AND (SERVER_RUNNING OR SERVER_SLAVE OR SERVER_MAINT) = (SERVER_RUNNING OR SERVER_SLAVE))"

definition status_is_relay :: "64 word \<Rightarrow> bool" where
  "status_is_relay status =
     (status AND (SERVER_RUNNING OR SERVER_RELAY OR SERVER_MAINT) = (SERVER_RUNNING OR SERVER_RELAY))"

text \<open>\<open>Target::RLAG_UNDEFINED\<close>, the value of an unknown replication lag and of an unset limit.\<close>

definition RLAG_UNDEFINED :: int where
  "RLAG_UNDEFINED = - 1"

definition INT_MAX :: int where
  "INT_MAX = 2147483647"

datatype RLagState = RLagState_NONE | BELOW_LIMIT | ABOVE_LIMIT

datatype CausalReads =
    CausalReads_NONE
  | CausalReads_LOCAL
  | CausalReads_GLOBAL
  | CausalReads_FAST
  | CausalReads_FAST_GLOBAL
  | CausalReads_UNIVERSAL
  | CausalReads_FAST_UNIVERSAL

datatype select_criteria_t =
    LEAST_GLOBAL_CONNECTIONS
  | LEAST_ROUTER_CONNECTIONS
  | LEAST_BEHIND_MASTER
  | LEAST_CURRENT_OPERATIONS
  | ADAPTIVE_ROUTING

text \<open>A GTID position: domain, server id and sequence.\<close>

record gtid =
  domain :: "32 word"
  server_id :: "32 word"
  sequence :: "64 word"

text \<open>
  A backend of the session together with its target: whether the session uses it, whether
  it can be connected to, the status bits, rank and replication lag of the target, the
  GTID positions of the server by domain, whether the backend is busy with a response that
  will be ignored, the time of its last write, and the target's statistics.
\<close>

record RWBackend =
  in_use :: bool
  can_connect :: bool
  status :: "64 word"
  rank :: int
  replication_lag :: int
  gtids :: "(32 word \<times> 64 word) list"
  should_ignore_response :: bool
  last_write :: int
  n_current_conns :: int
  n_current_ops :: int
  response_time_average :: real

text \<open>\<open>Server::gtid_pos\<close>: the position in a domain, 0 when the server has none.\<close>

definition gtid_pos :: "RWBackend \<Rightarrow> 32 word \<Rightarrow> 64 word" where
  "gtid_pos backend d = (case map_of (gtids backend) d of Some s \<Rightarrow> s | None \<Rightarrow> 0)"

text \<open>
  The session and what it reads from its configuration and its router. The backends are
  addressed by their position in \<open>m_raw_backends\<close>, which stands for the pointer;
  \<open>m_current_master\<close> is such a position or \<open>None\<close> for \<open>nullptr\<close>.
  \<open>can_recover_servers\<close> is the answer of the session's function of that name, which is
  not among the sources.
\<close>

record RWSplitSession =
  m_raw_backends :: "RWBackend list"
  m_current_master :: "nat option"
  m_gtid_pos :: gtid
  last_gtid_map :: "(32 word \<times> gtid) list"
  causal_reads :: CausalReads
  master_accept_reads :: bool
  max_slave_connections :: int
  slave_selection_criteria :: select_criteria_t
  can_recover_servers :: bool

definition valid_for_slave :: "RWSplitSession \<Rightarrow> nat \<Rightarrow> nat option \<Rightarrow> bool" where
  "valid_for_slave s i master =
     ((status_is_slave (status (m_raw_backends s ! i)) \<or> status_is_relay (status (m_raw_backends s ! i)))
      \<and> (master = None \<or> Some i \<noteq> master))"

text \<open>\<open>rpl_lag_is_ok\<close>: "Check if replication lag is below acceptable levels".\<close>

definition rpl_lag_is_ok :: "RWBackend \<Rightarrow> int \<Rightarrow> bool" where
  "rpl_lag_is_ok backend max_rlag =
     (if max_rlag \<noteq> RLAG_UNDEFINED
      then (let rlag = replication_lag backend in rlag \<noteq> RLAG_UNDEFINED \<and> rlag < max_rlag)
      else True)"

definition gtid_pos_is_ok :: "RWBackend \<Rightarrow> gtid \<Rightarrow> bool" where
  "gtid_pos_is_ok backend g = (sequence g = 0 \<or> gtid_pos backend (domain g) \<ge> sequence g)"

text \<open>
  \<open>best_score\<close>: the candidate of the least score, the least recently written one among
  equals; the loop starts after the first candidate.
\<close>

fun best_score_loop :: "(nat \<Rightarrow> int) \<Rightarrow> (nat \<Rightarrow> int) \<Rightarrow> int \<Rightarrow> nat \<Rightarrow> nat list \<Rightarrow> nat" where
  "best_score_loop server_score lw mn best [] = best"
| "best_score_loop server_score lw mn best (b # bs) =
     (let score = server_score b
      in if mn > score then best_score_loop server_score lw score b bs
         else if mn = score \<and> lw b < lw best then best_score_loop server_score lw mn b bs
         else best_score_loop server_score lw mn best bs)"

definition best_score :: "(nat \<Rightarrow> int) \<Rightarrow> (nat \<Rightarrow> int) \<Rightarrow> nat list \<Rightarrow> nat option" where
  "best_score server_score lw sBackends =
     (case sBackends of
        [] \<Rightarrow> None
      | [b] \<Rightarrow> Some b
      | b # bs \<Rightarrow> Some (best_score_loop server_score lw (server_score b) b bs))"

text \<open>
  \<open>backend_cmp_response_time\<close>: the estimate of a backend is its average response time
  times the number of its operations plus one; \<open>std::min_element\<close> gives the first least
  estimate. The averages are floating point numbers in the source and real numbers here.
\<close>

fun min_element_loop :: "(nat \<Rightarrow> real) \<Rightarrow> nat \<Rightarrow> nat list \<Rightarrow> nat" where
  "min_element_loop est smallest [] = smallest"
| "min_element_loop est smallest (b # bs) =
     (if est b < est smallest then min_element_loop est b bs else min_element_loop est smallest bs)"

definition backend_cmp_response_time :: "RWBackend list \<Rightarrow> nat list \<Rightarrow> nat option" where
  "backend_cmp_response_time backends pBackends =
     (case pBackends of
        [] \<Rightarrow> None
      | [b] \<Rightarrow> Some b
      | b # bs \<Rightarrow>
          Some (min_element_loop
                  (\<lambda>i. response_time_average (backends ! i)
                        + response_time_average (backends ! i) * real_of_int (n_current_ops (backends ! i)))
                  b bs))"

text \<open>\<open>RWSConfig::get_backend_select_function\<close> applied to the candidates.\<close>

definition backend_select_fct :: "select_criteria_t \<Rightarrow> RWBackend list \<Rightarrow> nat list \<Rightarrow> nat option" where
  "backend_select_fct sc backends cands =
     (case sc of
        LEAST_GLOBAL_CONNECTIONS \<Rightarrow>
          best_score (\<lambda>i. n_current_conns (backends ! i)) (\<lambda>i. last_write (backends ! i)) cands
      | LEAST_ROUTER_CONNECTIONS \<Rightarrow>
          best_score (\<lambda>i. n_current_conns (backends ! i)) (\<lambda>i. last_write (backends ! i)) cands
      | LEAST_BEHIND_MASTER \<Rightarrow>
          best_score (\<lambda>i. replication_lag (backends ! i)) (\<lambda>i. last_write (backends ! i)) cands
      | LEAST_CURRENT_OPERATIONS \<Rightarrow>
          best_score (\<lambda>i. n_current_ops (backends ! i)) (\<lambda>i. last_write (backends ! i)) cands
      | ADAPTIVE_ROUTING \<Rightarrow> backend_cmp_response_time backends cands)"

definition get_backend_priority :: "RWBackend \<Rightarrow> 64 word \<Rightarrow> bool \<Rightarrow> int" where
  "get_backend_priority backend st masters_accepts_reads =
     (let is_busy = should_ignore_response backend;
          acts_slave = (st AND (SERVER_SLAVE OR (if masters_accepts_reads then SERVER_MASTER else 0)) \<noteq> 0)
      in if acts_slave then (if \<not> is_busy then 0 else 1) else 2)"

definition get_slave_counts :: "RWSplitSession \<Rightarrow> nat option \<Rightarrow> int" where
  "get_slave_counts s master =
     int (length (filter (\<lambda>i. in_use (m_raw_backends s ! i) \<and> valid_for_slave s i master)
                         [0 ..< length (m_raw_backends s)]))"

definition is_gtid_synced :: "RWSplitSession \<Rightarrow> RWBackend \<Rightarrow> bool" where
  "is_gtid_synced s backend =
     (if causal_reads s = CausalReads_FAST \<or> causal_reads s = CausalReads_FAST_UNIVERSAL
      then gtid_pos_is_ok backend (m_gtid_pos s)
      else if causal_reads s = CausalReads_FAST_GLOBAL
      then list_all (\<lambda>(d, g). gtid_pos_is_ok backend g) (last_gtid_map s)
      else True)"

text \<open>
  \<open>get_current_rank\<close>: the rank of the current master when it is in use; otherwise that of
  the least backend in the order "in use first, then connectable first, then lower rank",
  as \<open>std::min_element\<close> finds it; 1 without backends.
\<close>

definition rank_compare :: "RWBackend \<Rightarrow> RWBackend \<Rightarrow> bool" where
  "rank_compare a b =
     (if in_use a \<noteq> in_use b then in_use a
      else if can_connect a \<noteq> can_connect b then can_connect a
      else rank a < rank b)"

fun min_backend_loop :: "RWBackend \<Rightarrow> RWBackend list \<Rightarrow> RWBackend" where
  "min_backend_loop smallest [] = smallest"
| "min_backend_loop smallest (b # bs) =
     (if rank_compare b smallest then min_backend_loop b bs else min_backend_loop smallest bs)"

definition master_in_use :: "RWSplitSession \<Rightarrow> bool" where
  "master_in_use s =
     (case m_current_master s of
        Some m \<Rightarrow> m < length (m_raw_backends s) \<and> in_use (m_raw_backends s ! m)
      | None \<Rightarrow> False)"

definition get_current_rank :: "RWSplitSession \<Rightarrow> int" where
  "get_current_rank s =
     (if master_in_use s then rank (m_raw_backends s ! the (m_current_master s))
      else (case m_raw_backends s of
              [] \<Rightarrow> 1
            | b # bs \<Rightarrow> rank (min_backend_loop b bs)))"

definition need_slaves :: "RWSplitSession \<Rightarrow> bool" where
  "need_slaves s = (get_slave_counts s (m_current_master s) < max_slave_connections s)"

text \<open>
  The condition under which the loop of \<open>get_slave_backend\<close> considers the backend at
  position \<open>i\<close> for the candidates, with the names of the source.
\<close>

definition read_candidate :: "RWSplitSession \<Rightarrow> int \<Rightarrow> nat \<Rightarrow> bool" where
  "read_candidate s max_rlag i =
     (let backend = m_raw_backends s ! i;
          my_master = (Some i = m_current_master s);
          already_used = in_use backend;
          can_take_into_use = (\<not> already_used \<and> can_recover_servers s \<and> can_connect backend);
          master_or_slave = (status backend AND (SERVER_MASTER OR SERVER_SLAVE) \<noteq> 0);
          in_maint = (status backend AND SERVER_MAINT \<noteq> 0);
          is_usable = (already_used \<or> (can_take_into_use \<and> (need_slaves s \<or> my_master)));
          rlag_ok = rpl_lag_is_ok backend max_rlag;
          gtid_is_ok = (my_master \<or> is_gtid_synced s backend);
          same_rank = (rank backend = get_current_rank s)
      in master_or_slave \<and> \<not> in_maint \<and> is_usable \<and> rlag_ok \<and> same_rank \<and> gtid_is_ok)"

text \<open>
  The state of the loop: the candidates, the best priority so far, \<open>m_check_stale\<close>, and
  the replication lag states set on the targets (position, state, limit).
\<close>

record slave_scan =
  candidates :: "nat list"
  best_priority :: int
  m_check_stale :: bool
  rlag_states :: "(nat \<times> RLagState \<times> int) list"

definition scan_backend :: "RWSplitSession \<Rightarrow> int \<Rightarrow> slave_scan \<Rightarrow> nat \<Rightarrow> slave_scan" where
  "scan_backend s max_rlag acc i =
     (let backend = m_raw_backends s ! i;
          already_used = in_use backend;
          in_maint = (status backend AND SERVER_MAINT \<noteq> 0);
          rlag_ok = rpl_lag_is_ok backend max_rlag;
          priority = get_backend_priority backend (status backend) (master_accept_reads s);
          same_rank = (rank backend = get_current_rank s);
          acc1 = acc\<lparr>m_check_stale := (already_used \<and> (in_maint \<or> \<not> same_rank))\<rparr>;
          acc2 = (if read_candidate s max_rlag i
                  then (let acc' = (if priority < best_priority acc1
                                    then acc1\<lparr>candidates := [], best_priority := priority\<rparr>
                                    else acc1)
                        in if priority = best_priority acc'
                           then acc'\<lparr>candidates := candidates acc' @ [i]\<rparr>
                           else acc')
                  else acc1)
      in if max_rlag \<noteq> RLAG_UNDEFINED
         then acc2\<lparr>rlag_states := rlag_states acc2 @
                      [(i, if rlag_ok then BELOW_LIMIT else ABOVE_LIMIT, max_rlag)]\<rparr>
         else acc2)"

definition scan_backends :: "RWSplitSession \<Rightarrow> int \<Rightarrow> bool \<Rightarrow> slave_scan" where
  "scan_backends s max_rlag check_stale =
     foldl (scan_backend s max_rlag)
       \<lparr>candidates = [], best_priority = INT_MAX, m_check_stale = check_stale, rlag_states = []\<rparr>
       [0 ..< length (m_raw_backends s)]"

text \<open>\<open>get_slave_backend\<close>: the selection function picks among the candidates.\<close>

definition get_slave_backend :: "RWSplitSession \<Rightarrow> int \<Rightarrow> nat option" where
  "get_slave_backend s max_rlag =
     backend_select_fct (slave_selection_criteria s) (m_raw_backends s)
       (candidates (scan_backends s max_rlag False))"

text \<open>The priority that the loop computes for the backend at position \<open>i\<close>.\<close>

definition backend_priority :: "RWSplitSession \<Rightarrow> nat \<Rightarrow> int" where
  "backend_priority s i =
     get_backend_priority (m_raw_backends s ! i) (status (m_raw_backends s ! i)) (master_accept_reads s)"

text \<open>
  What holds of the loop state after the positions \<open>xs\<close>: the candidates are the read
  candidates among \<open>xs\<close> of the best priority, no read candidate among \<open>xs\<close> has a better
  one, and the best priority is that of one of them unless it still is \<open>INT_MAX\<close>.
\<close>

definition scan_inv :: "RWSplitSession \<Rightarrow> int \<Rightarrow> nat list \<Rightarrow> slave_scan \<Rightarrow> bool" where
  "scan_inv s r xs acc \<longleftrightarrow>
     candidates acc = filter (\<lambda>i. read_candidate s r i \<and> backend_priority s i = best_priority acc) xs \<and>
     (\<forall>j \<in> set xs. read_candidate s r j \<longrightarrow> best_priority acc \<le> backend_priority s j) \<and>
     (best_priority acc = INT_MAX \<or>
      (\<exists>j \<in> set xs. read_candidate s r j \<and> backend_priority s j = best_priority acc))"

text \<open>Fixtures: a running slave with a given replication lag and GTID position in domain 0,
  and a session over given backends without a master, under a given causal reads mode.\<close>

definition slave_backend :: "int \<Rightarrow> 64 word \<Rightarrow> RWBackend" where
  "slave_backend lag pos =
     \<lparr>in_use = True, can_connect = True, status = 17, rank = 1, replication_lag = lag,
      gtids = [(0, pos)], should_ignore_response = False, last_write = 0,
      n_current_conns = 0, n_current_ops = 0, response_time_average = 0\<rparr>"

definition read_session :: "RWBackend list \<Rightarrow> CausalReads \<Rightarrow> 64 word \<Rightarrow> RWSplitSession" where
  "read_session backends cr seq =
     \<lparr>m_raw_backends = backends, m_current_master = None,
      m_gtid_pos = \<lparr>domain = 0, server_id = 1, sequence = seq\<rparr>, last_gtid_map = [],
      causal_reads = cr, master_accept_reads = False, max_slave_connections = 255,
      slave_selection_criteria = LEAST_CURRENT_OPERATIONS, can_recover_servers = True\<rparr>"

section \<open>The session command id counter\<close>

lemma MAX_SESCMD_ID_minus1: "MAX_SESCMD_ID = - 1"
  by (simp add: MAX_SESCMD_ID_def)

lemma unat_MAX_SESCMD_ID: "unat MAX_SESCMD_ID = 2 ^ 32 - 1"
  by (simp add: MAX_SESCMD_ID_def)

lemma advance_next_id_range:
  "n \<noteq> 0 \<Longrightarrow> n \<noteq> MAX_SESCMD_ID \<Longrightarrow>
   advance_next_id n \<noteq> 0 \<and> advance_next_id n \<noteq> MAX_SESCMD_ID"
proof -
  assume a: "n \<noteq> 0" "n \<noteq> MAX_SESCMD_ID"
  have "n + 1 \<noteq> 0"
  proof
    assume "n + 1 = 0"
    then have "n = - 1" by (simp add: eq_neg_iff_add_eq_0)
    with a(2) show False by (simp add: MAX_SESCMD_ID_minus1)
  qed
  moreover have "(1 :: 32 word) \<noteq> MAX_SESCMD_ID" by (simp add: MAX_SESCMD_ID_def)
  ultimately show ?thesis by (simp add: advance_next_id_def)
qed

lemma nth_sescmd_id_0: "nth_sescmd_id 0 = 1"
  by (simp add: nth_sescmd_id_def)

lemma unat_nth_sescmd_id: "unat (nth_sescmd_id k) = k mod (2 ^ 32 - 2) + 1"
proof -
  have "k mod (2 ^ 32 - 2) < (2 ^ 32 - 2 :: nat)" by simp
  then have "k mod (2 ^ 32 - 2) + 1 < (2 ^ 32 :: nat)" by linarith
  then show ?thesis
    unfolding nth_sescmd_id_def
    by (simp add: unat_word_ariths unat_of_nat take_bit_nat_eq_self)
qed

lemma nth_sescmd_id_Suc: "nth_sescmd_id (Suc k) = advance_next_id (nth_sescmd_id k)"
proof -
  let ?m = "2 ^ 32 - 2 :: nat"
  let ?j = "k mod ?m"
  have j: "?j < ?m" by simp
  have u: "unat (nth_sescmd_id k + 1) = ?j + 2"
    using j by (simp add: unat_word_ariths unat_nth_sescmd_id)
  show ?thesis
  proof (cases "Suc ?j = ?m")
    case True
    then have "Suc k mod ?m = 0" by (metis mod_Suc)
    then have l: "nth_sescmd_id (Suc k) = 1" by (simp add: nth_sescmd_id_def)
    have "unat (nth_sescmd_id k + 1) = unat MAX_SESCMD_ID"
      using True u by (simp add: unat_MAX_SESCMD_ID)
    then have "nth_sescmd_id k + 1 = MAX_SESCMD_ID"
      by (simp only: word_unat_eq_iff)
    then show ?thesis using l by (simp add: advance_next_id_def)
  next
    case False
    then have s: "Suc k mod ?m = Suc ?j" by (metis mod_Suc)
    have "unat (nth_sescmd_id k + 1) \<noteq> unat MAX_SESCMD_ID"
      using False u by (simp add: unat_MAX_SESCMD_ID)
    then have ne: "nth_sescmd_id k + 1 \<noteq> MAX_SESCMD_ID"
      by auto
    have "nth_sescmd_id (Suc k) = nth_sescmd_id k + 1"
      unfolding nth_sescmd_id_def s by simp
    then show ?thesis using ne by (simp add: advance_next_id_def)
  qed
qed

lemma nth_sescmd_id_range: "nth_sescmd_id k \<noteq> 0 \<and> nth_sescmd_id k \<noteq> MAX_SESCMD_ID"
proof -
  have "k mod (2 ^ 32 - 2) < (2 ^ 32 - 2 :: nat)" by simp
  then have "unat (nth_sescmd_id k) \<noteq> unat (0 :: 32 word) \<and> unat (nth_sescmd_id k) \<noteq> unat MAX_SESCMD_ID"
    by (simp add: unat_nth_sescmd_id unat_MAX_SESCMD_ID)
  then show ?thesis by auto
qed

lemma record_for_history_next_id:
  "record_for_history b s = (r, b', s') \<Longrightarrow>
   m_next_id s' = (if r then advance_next_id (m_next_id s) else m_next_id s) \<and>
   (r \<longrightarrow> buf_id b' = m_next_id s)"
  by (auto simp: record_for_history_def stmt_execute_metadata_def Let_def
           split: mxs_cmd.splits if_splits prod.splits)

lemma route_statement_ids_next_id:
  "route_statement_ids b s = (r, b', s') \<Longrightarrow>
   m_next_id s' = (if id_assigned b s then advance_next_id (m_next_id s) else m_next_id s) \<and>
   (id_assigned b s \<longrightarrow> buf_id b' = m_next_id s)"
  using record_for_history_next_id [of b s r b' s']
  by (auto simp: route_statement_ids_def id_assigned_def split: if_splits)

lemma assigned_ids_cycle:
  "m_next_id s = nth_sescmd_id k \<Longrightarrow>
   \<exists>n. assigned_ids bs s = map nth_sescmd_id [k ..< k + n]"
proof (induction bs arbitrary: s k)
  case Nil
  have "assigned_ids [] s = map nth_sescmd_id [k ..< k + 0]" by simp
  then show ?case by blast
next
  case (Cons b bs)
  obtain r b' s' where rs: "route_statement_ids b s = (r, b', s')"
    by (cases "route_statement_ids b s") auto
  note step = route_statement_ids_next_id [OF rs]
  show ?case
  proof (cases "id_assigned b s")
    case True
    then have n': "m_next_id s' = nth_sescmd_id (Suc k)"
      using step Cons.prems by (simp add: nth_sescmd_id_Suc)
    obtain n where n: "assigned_ids bs s' = map nth_sescmd_id [Suc k ..< Suc k + n]"
      using Cons.IH [OF n'] by blast
    have hd: "buf_id b' = nth_sescmd_id k" using step True Cons.prems by simp
    have "assigned_ids (b # bs) s = nth_sescmd_id k # map nth_sescmd_id [Suc k ..< Suc k + n]"
      using rs True hd n by simp
    also have "\<dots> = map nth_sescmd_id [k ..< k + Suc n]"
      by (simp add: upt_rec [of k])
    finally show ?thesis by blast
  next
    case False
    then have n': "m_next_id s' = nth_sescmd_id k" using step Cons.prems by simp
    obtain n where n: "assigned_ids bs s' = map nth_sescmd_id [k ..< k + n]"
      using Cons.IH [OF n'] by blast
    have "assigned_ids (b # bs) s = map nth_sescmd_id [k ..< k + n]"
      using rs False n by simp
    then show ?thesis by blast
  qed
qed

text \<open>
  Claim C7. The ids given to the commands of one client connection are the first values of
  the cycle \<open>1, 2, \<dots>, 2^32 - 2, 1, \<dots>\<close>: the counter starts at 1, each assignment moves it on
  by one, and the step that would reach \<open>2^32 - 1\<close> puts it back to 1. So no assigned id is 0
  and none is \<open>2^32 - 1\<close>.
\<close>

theorem sescmd_ids_from_wrapping_counter:
  "m_next_id s = initial_next_id \<Longrightarrow>
   assigned_ids bs s = map nth_sescmd_id [0 ..< length (assigned_ids bs s)] \<and>
   nth_sescmd_id 0 = 1 \<and>
   (\<forall>k. nth_sescmd_id (Suc k) = advance_next_id (nth_sescmd_id k)) \<and>
   0 \<notin> set (assigned_ids bs s) \<and> MAX_SESCMD_ID \<notin> set (assigned_ids bs s)"
proof -
  assume a: "m_next_id s = initial_next_id"
  then have "m_next_id s = nth_sescmd_id 0"
    by (simp add: initial_next_id_def nth_sescmd_id_0)
  from assigned_ids_cycle [OF this]
  obtain n where n: "assigned_ids bs s = map nth_sescmd_id [0 ..< n]" by auto
  then have "length (assigned_ids bs s) = n" by simp
  with n have c: "assigned_ids bs s = map nth_sescmd_id [0 ..< length (assigned_ids bs s)]" by simp
  have "\<forall>x \<in> set (map nth_sescmd_id [0 ..< n]). x \<noteq> 0 \<and> x \<noteq> MAX_SESCMD_ID"
    using nth_sescmd_id_range by auto
  then have "0 \<notin> set (assigned_ids bs s) \<and> MAX_SESCMD_ID \<notin> set (assigned_ids bs s)"
    unfolding n by blast
  then show ?thesis using c nth_sescmd_id_0 nth_sescmd_id_Suc by blast
qed


theorem sescmd_ids_from_wrapping_counter_witness:
  "m_next_id fresh_sescmd_state = initial_next_id \<and>
   0 \<notin> set (assigned_ids [plain_packet MXS_COM_STMT_PREPARE 0, plain_packet MXS_COM_PING 0,
                            plain_packet MXS_COM_STMT_PREPARE 0] fresh_sescmd_state) \<and>
   MAX_SESCMD_ID \<notin> set (assigned_ids [plain_packet MXS_COM_STMT_PREPARE 0, plain_packet MXS_COM_PING 0,
                            plain_packet MXS_COM_STMT_PREPARE 0] fresh_sescmd_state)"
  using sescmd_ids_from_wrapping_counter
          [of fresh_sescmd_state
              "[plain_packet MXS_COM_STMT_PREPARE 0, plain_packet MXS_COM_PING 0,
                plain_packet MXS_COM_STMT_PREPARE 0]"]
  by (simp add: fresh_sescmd_state_def)

section \<open>COM\_STMT\_CLOSE and the history\<close>

lemma history_erase_fst:
  "fst (history_erase i h) \<longleftrightarrow> i \<in> set (map (\<lambda>e. buf_id (fst e)) h)"
  by (auto simp: history_erase_def list_ex_iff)

lemma history_erase_snd:
  "snd (history_erase i h) = filter (\<lambda>e. buf_id (fst e) \<noteq> i) h"
  by (simp add: history_erase_def)

text \<open>
  Claim C6. On a session that records its history, when the history holds an entry with id
  \<open>i\<close> (the recorded \<open>COM_STMT_PREPARE\<close>), routing a \<open>COM_STMT_CLOSE\<close> for statement \<open>i\<close>
  leaves the history without any entry of id \<open>i\<close> and with every other entry in place,
  erases the saved type block of \<open>i\<close> and no other, and records nothing: the close is not the
  pending command, takes no id and is routed on unchanged.
\<close>

theorem stmt_close_removes_prepare:
  assumes "sescmd_history s"
    and "command b = MXS_COM_STMT_CLOSE"
    and "ps_id b = i"
    and "i \<in> set (history_ids s)"
  shows "\<exists>s'. route_statement_ids b s = (False, b, s') \<and>
           history s' = filter (\<lambda>e. buf_id (fst e) \<noteq> i) (history s) \<and>
           i \<notin> set (history_ids s') \<and>
           exec_metadata s' = (exec_metadata s)(i := None) \<and>
           m_pending_cmd s' = m_pending_cmd s \<and>
           m_next_id s' = m_next_id s"
proof -
  have e: "fst (history_erase i (history s))"
    using assms(4) by (simp add: history_erase_fst history_ids_def)
  obtain er h where eh: "history_erase i (history s) = (er, h)"
    by (cases "history_erase i (history s)") auto
  with e have er: "er" by simp
  have h: "h = filter (\<lambda>e. buf_id (fst e) \<noteq> i) (history s)"
    using eh history_erase_snd [of i "history s"] by simp
  let ?s' = "s\<lparr>history := h, exec_metadata := (exec_metadata s)(i := None)\<rparr>"
  have "record_for_history b s = (False, b, ?s')"
    using assms(2,3) eh er by (simp add: record_for_history_def)
  then have r: "route_statement_ids b s = (False, b, ?s')"
    using assms(1) by (simp add: route_statement_ids_def)
  have "i \<notin> set (history_ids ?s')"
    by (auto simp: history_ids_def h)
  then show ?thesis using r h by simp
qed

theorem stmt_close_removes_prepare_witness:
  "\<exists>s'. route_statement_ids (plain_packet MXS_COM_STMT_CLOSE 7)
          (fresh_sescmd_state
             \<lparr>history := [((plain_packet MXS_COM_STMT_PREPARE 0)\<lparr>buf_id := 7\<rparr>, True),
                          ((plain_packet (MXS_COM_OTHER 3) 0)\<lparr>buf_id := 8\<rparr>, True)],
              exec_metadata := [7 \<mapsto> [1, 0]]\<rparr>)
        = (False, plain_packet MXS_COM_STMT_CLOSE 7, s') \<and>
        history_ids s' = [8] \<and> exec_metadata s' 7 = None"
proof -
  let ?s = "fresh_sescmd_state
             \<lparr>history := [((plain_packet MXS_COM_STMT_PREPARE 0)\<lparr>buf_id := 7\<rparr>, True),
                          ((plain_packet (MXS_COM_OTHER 3) 0)\<lparr>buf_id := 8\<rparr>, True)],
              exec_metadata := [7 \<mapsto> [1, 0]]\<rparr>"
  have "sescmd_history ?s" by (simp add: fresh_sescmd_state_def)
  moreover have "command (plain_packet MXS_COM_STMT_CLOSE 7) = MXS_COM_STMT_CLOSE"
    by (simp add: plain_packet_def)
  moreover have "ps_id (plain_packet MXS_COM_STMT_CLOSE 7) = 7"
    by (simp add: plain_packet_def)
  moreover have "7 \<in> set (history_ids ?s)"
    by (simp add: history_ids_def plain_packet_def)
  ultimately obtain s' where
    s': "route_statement_ids (plain_packet MXS_COM_STMT_CLOSE 7) ?s
           = (False, plain_packet MXS_COM_STMT_CLOSE 7, s')"
        "history s' = filter (\<lambda>e. buf_id (fst e) \<noteq> 7) (history ?s)"
        "exec_metadata s' = (exec_metadata ?s)(7 := None)"
    using stmt_close_removes_prepare [of ?s "plain_packet MXS_COM_STMT_CLOSE 7" 7] by blast
  have "history_ids s' = [8]"
    using s'(2) by (simp add: history_ids_def plain_packet_def)
  moreover have "exec_metadata s' 7 = None" using s'(3) by simp
  ultimately show ?thesis using s'(1) by blast
qed

section \<open>Replies and the expected-responses counter\<close>

lemma settle_changing_state_num:
  "settle_changing_state b r s = (b', s') \<Longrightarrow>
   m_num_responses s' = m_num_responses s \<and> m_command s' = m_command s \<and> writeq s' = writeq s"
  by (auto simp: settle_changing_state_def complete_change_user_p2_def cancel_change_user_p2_def
           split: if_splits ChangingState.splits option.splits)

lemma settle_routing_state_num:
  "m_num_responses (settle_routing_state r s) = m_num_responses s \<and>
   m_command (settle_routing_state r s) = m_command s \<and>
   writeq (settle_routing_state r s) = writeq s \<and>
   current_db (settle_routing_state r s) = current_db s \<and>
   role (settle_routing_state r s) = role s \<and>
   auth_data (settle_routing_state r s) = auth_data s"
  by (simp add: settle_routing_state_def finish_recording_history_def split: RoutingState.splits)

lemma clientReply_counter:
  "m_num_responses (clientReply b r s) =
     (if m_command s \<noteq> MXS_COM_BINLOG_DUMP \<and> is_complete r \<and> \<not> is_unexpected_error r
      then m_num_responses s - 1 else m_num_responses s) \<and>
   length (writeq (clientReply b r s)) = length (writeq s) + 1 \<and>
   (0 < m_num_responses s \<longrightarrow> 0 \<le> m_num_responses (clientReply b r s))"
proof -
  obtain b1 s1 where p: "(if m_num_responses s = 1
             then (case settle_changing_state b r s of
                     (b, t) \<Rightarrow> (b, settle_routing_state r t))
             else (b, s)) = (b1, s1)"
    by (metis surj_pair)
  have k: "m_num_responses s1 = m_num_responses s \<and> m_command s1 = m_command s \<and> writeq s1 = writeq s"
  proof (cases "m_num_responses s = 1")
    case True
    obtain b' t where t: "settle_changing_state b r s = (b', t)" by (metis surj_pair)
    with p True have "s1 = settle_routing_state r t" by simp
    then show ?thesis
      using settle_changing_state_num [OF t] settle_routing_state_num [of r t] by simp
  next
    case False
    with p show ?thesis by simp
  qed
  have c: "clientReply b r s =
        (let s2 = (if m_command s1 = MXS_COM_BINLOG_DUMP then s1
                else if is_complete r \<and> \<not> is_unexpected_error r
                     then s1\<lparr>m_num_responses := m_num_responses s1 - 1\<rparr>
                     else s1)
      in s2\<lparr>writeq := writeq s2 @ [b1]\<rparr>)"
    unfolding clientReply_def p by simp
  show ?thesis unfolding c using k by (simp add: Let_def)
qed

text \<open>
  Claim C3: every reply forwarded to the client takes one off the counter of expected
  responses, and the counter never is negative. The code asserts the second half after the
  decrement, and \<open>route_statement\<close> says of itself that the counter is modified before the
  query is routed, so that a router may call \<open>clientReply\<close> inside \<open>routeQuery\<close>. The
  function increments the counter after the downstream call has returned, though. On an
  idle connection a command whose complete reply is delivered inside \<open>routeQuery\<close> is
  therefore answered while the counter is 0: \<open>clientReply\<close> skips the block for the last
  outstanding response and leaves the counter at -1; the increment that follows brings it
  back to 0.
\<close>

theorem reply_inside_routeQuery_negative:
  "m_num_responses idle_client = 0 \<and>
   prepare_route (\<lambda>c. c \<noteq> MXS_COM_QUIT) (plain_packet (MXS_COM_OTHER 3) 0) idle_client
     = (True, plain_packet (MXS_COM_OTHER 3) 0,
        idle_client\<lparr>downstream := [plain_packet (MXS_COM_OTHER 3) 0]\<rparr>) \<and>
   m_num_responses
     (clientReply (plain_packet (MXS_COM_OTHER 0) 0) ok_reply
        (idle_client\<lparr>downstream := [plain_packet (MXS_COM_OTHER 3) 0]\<rparr>)) = - 1 \<and>
   route_statement (\<lambda>c. c \<noteq> MXS_COM_QUIT)
       (replying_route (plain_packet (MXS_COM_OTHER 0) 0) ok_reply)
       (plain_packet (MXS_COM_OTHER 3) 0) idle_client
     = (True,
        (clientReply (plain_packet (MXS_COM_OTHER 0) 0) ok_reply
           (idle_client\<lparr>downstream := [plain_packet (MXS_COM_OTHER 3) 0]\<rparr>))
          \<lparr>m_num_responses := 0\<rparr>)"
proof -
  let ?q = "plain_packet (MXS_COM_OTHER 3) 0"
  let ?rb = "plain_packet (MXS_COM_OTHER 0) 0"
  let ?w = "\<lambda>c. c \<noteq> MXS_COM_QUIT"
  let ?s3 = "idle_client\<lparr>downstream := [?q]\<rparr>"
  have z: "m_num_responses idle_client = 0" by (simp add: idle_client_def)
  have ids: "route_statement_ids ?q (sescmd idle_client) = (False, ?q, sescmd idle_client)"
    by (simp add: route_statement_ids_def record_for_history_def idle_client_def
                  fresh_sescmd_state_def plain_packet_def)
  have p: "prepare_route ?w ?q idle_client = (True, ?q, ?s3)"
    unfolding prepare_route_def ids
    by (simp add: plain_packet_def idle_client_def)
  have c: "m_num_responses (clientReply ?rb ok_reply ?s3) = - 1"
    using clientReply_counter [of ?rb ok_reply ?s3]
    by (simp add: idle_client_def ok_reply_def)
  have r: "route_statement ?w (replying_route ?rb ok_reply) ?q idle_client
             = (True, (clientReply ?rb ok_reply ?s3)\<lparr>m_num_responses := 0\<rparr>)"
    unfolding route_statement_def p replying_route_def
    using c by simp
  show ?thesis using z p c r by blast
qed

section \<open>COM\_CHANGE\_USER: commit on OK, revert on ERR\<close>










section \<open>A handshake response out of order\<close>

lemma process_handshake_turn_progress:
  "process_handshake_turn env s = (True, r, s') \<Longrightarrow>
   hs_turns_left (m_handshake_state s') < hs_turns_left (m_handshake_state s)"
  by (cases "m_handshake_state s")
     (auto simp: process_handshake_turn_def Let_def send_mysql_err_packet_def
           split: if_splits prod.splits)

lemma process_handshake_unfold:
  "process_handshake env s =
     (case process_handshake_turn env s of
        (state_machine_continue, rval, s') \<Rightarrow>
          if state_machine_continue then process_handshake env s'
          else (case rval of None \<Rightarrow> (IN_PROGRESS, s') | Some r \<Rightarrow> (r, s')))"
proof -
  obtain c r s' where t: "process_handshake_turn env s = (c, r, s')"
    by (metis surj_pair)
  show ?thesis
  proof (cases c)
    case True
    with t process_handshake_turn_progress [of env s r s']
    show ?thesis by (subst process_handshake.simps) simp
  next
    case False
    with t show ?thesis by (subst process_handshake.simps) simp
  qed
qed

lemma process_handshake_FAIL:
  "m_handshake_state s = HSState_FAIL \<Longrightarrow> process_handshake env s = (ERROR, s)"
  by (subst process_handshake_unfold) (simp add: process_handshake_turn_def)

lemma read_handshake_response_out_of_order:
  assumes "\<not> io_error s"
    and "MYSQL_HEADER_LEN \<le> length (avail s)"
    and "NORMAL_HS_RESP_MIN_SIZE \<le> MYSQL_HEADER_LEN + header_pl_length (avail s)"
    and "MYSQL_HEADER_LEN + header_pl_length (avail s) \<le> NORMAL_HS_RESP_MAX_SIZE"
    and "uint (header_seq (avail s)) \<noteq> expected_seq"
  shows "\<exists>s'. read_handshake_response expected_seq s = (ERROR, [], s') \<and>
           m_handshake_state s' = m_handshake_state s \<and>
           hs_writeq s' = hs_writeq s @
             [\<lparr>err_seq = header_seq (avail s) + 1, mysql_errno = ER_OUT_OF_ORDER,
               sqlstate = HANDSHAKE_ERRSTATE, mysql_message = PACKETS_OOO_MSG\<rparr>]"
proof -
  let ?buffer = "take NORMAL_HS_RESP_MAX_SIZE (avail s)"
  have l: "4 \<le> length (avail s)" using assms(2) by (simp add: MYSQL_HEADER_LEN_def)
  have r: "dcb_read MYSQL_HEADER_LEN NORMAL_HS_RESP_MAX_SIZE s =
             ((True, ?buffer), s\<lparr>avail := drop NORMAL_HS_RESP_MAX_SIZE (avail s)\<rparr>)"
    using assms(1,2) by (simp add: dcb_read_def)
  have ne: "?buffer \<noteq> []"
    using l by (auto simp: NORMAL_HS_RESP_MAX_SIZE_def MYSQL_PACKET_LENGTH_MAX_def)
  have h: "header_pl_length ?buffer = header_pl_length (avail s)"
          "header_seq ?buffer = header_seq (avail s)"
    by (simp_all add: header_pl_length_def header_seq_def NORMAL_HS_RESP_MAX_SIZE_def
                      MYSQL_PACKET_LENGTH_MAX_def)
  show ?thesis
    unfolding read_handshake_response_def r
    using ne assms(3,4,5) h
    by (simp add: Let_def send_mysql_err_packet_def)
qed

text \<open>
  Claim C4. The connection waits for the handshake response (or has just been accepted by a
  listener without proxy networks and without TLS), and the frame that has arrived has the
  size of a handshake response, 38 to 2^24 - 2 bytes with its header, and a sequence number
  other than the expected one (1, or 2 when the listener requires TLS). Then the client is
  sent one error packet, number 1156, SQLSTATE 08S01, "Got packets out of order", with the
  sequence number after the client's, the connection state becomes \<open>FAILED\<close> and the session
  is killed.
\<close>

theorem handshake_response_out_of_order:
  assumes "m_handshake_state s = EXPECT_HS_RESP \<or>
           (m_handshake_state s = HSState_INIT \<and> \<not> proxyproto_on env \<and> \<not> require_ssl env)"
    and "\<not> io_error s"
    and "MYSQL_HEADER_LEN \<le> length (avail s)"
    and "NORMAL_HS_RESP_MIN_SIZE \<le> MYSQL_HEADER_LEN + header_pl_length (avail s)"
    and "MYSQL_HEADER_LEN + header_pl_length (avail s) \<le> NORMAL_HS_RESP_MAX_SIZE"
    and "uint (header_seq (avail s)) \<noteq> (if require_ssl env then 2 else 1)"
  shows "\<exists>s'. ready_for_reading_handshake env s = (FAILED, True, s') \<and>
           hs_writeq s' = hs_writeq s @
             [\<lparr>err_seq = header_seq (avail s) + 1, mysql_errno = 1156,
               sqlstate = ''08S01'', mysql_message = ''Got packets out of order''\<rparr>]"
proof -
  have main: "\<exists>s'. process_handshake env t = (ERROR, s') \<and>
           hs_writeq s' = hs_writeq t @
             [\<lparr>err_seq = header_seq (avail t) + 1, mysql_errno = ER_OUT_OF_ORDER,
               sqlstate = HANDSHAKE_ERRSTATE, mysql_message = PACKETS_OOO_MSG\<rparr>]"
    if t: "m_handshake_state t = EXPECT_HS_RESP" "\<not> io_error t"
       "MYSQL_HEADER_LEN \<le> length (avail t)"
       "NORMAL_HS_RESP_MIN_SIZE \<le> MYSQL_HEADER_LEN + header_pl_length (avail t)"
       "MYSQL_HEADER_LEN + header_pl_length (avail t) \<le> NORMAL_HS_RESP_MAX_SIZE"
       "uint (header_seq (avail t)) \<noteq> (if require_ssl env then 2 else 1)" for t
  proof -
    obtain t' where t': "read_handshake_response (if require_ssl env then 2 else 1) t = (ERROR, [], t')"
        "m_handshake_state t' = m_handshake_state t"
        "hs_writeq t' = hs_writeq t @
             [\<lparr>err_seq = header_seq (avail t) + 1, mysql_errno = ER_OUT_OF_ORDER,
               sqlstate = HANDSHAKE_ERRSTATE, mysql_message = PACKETS_OOO_MSG\<rparr>]"
      using read_handshake_response_out_of_order [OF t(2) t(3) t(4) t(5) t(6)] by blast
    have turn: "process_handshake_turn env t = (True, None, t'\<lparr>m_handshake_state := HSState_FAIL\<rparr>)"
      using t(1) t'(1) by (simp add: process_handshake_turn_def)
    have "process_handshake env t = process_handshake env (t'\<lparr>m_handshake_state := HSState_FAIL\<rparr>)"
      by (subst process_handshake_unfold) (simp add: turn)
    also have "\<dots> = (ERROR, t'\<lparr>m_handshake_state := HSState_FAIL\<rparr>)"
      by (rule process_handshake_FAIL) simp
    finally show ?thesis using t'(3) by simp
  qed
  have "\<exists>s'. process_handshake env s = (ERROR, s') \<and>
           hs_writeq s' = hs_writeq s @
             [\<lparr>err_seq = header_seq (avail s) + 1, mysql_errno = ER_OUT_OF_ORDER,
               sqlstate = HANDSHAKE_ERRSTATE, mysql_message = PACKETS_OOO_MSG\<rparr>]"
  proof (cases "m_handshake_state s = EXPECT_HS_RESP")
    case True
    then show ?thesis using main [of s] assms by blast
  next
    case False
    with assms(1) have i: "m_handshake_state s = HSState_INIT" "\<not> proxyproto_on env" "\<not> require_ssl env"
      by auto
    let ?t = "s\<lparr>hs_next_sequence := 1, m_handshake_state := EXPECT_HS_RESP\<rparr>"
    have turn: "process_handshake_turn env s = (True, None, ?t)"
      using i by (simp add: process_handshake_turn_def)
    have "process_handshake env s = process_handshake env ?t"
      by (subst process_handshake_unfold) (simp add: turn)
    moreover have "\<exists>s'. process_handshake env ?t = (ERROR, s') \<and>
           hs_writeq s' = hs_writeq ?t @
             [\<lparr>err_seq = header_seq (avail ?t) + 1, mysql_errno = ER_OUT_OF_ORDER,
               sqlstate = HANDSHAKE_ERRSTATE, mysql_message = PACKETS_OOO_MSG\<rparr>]"
      using assms(2-6) by (intro main) simp_all
    ultimately show ?thesis by simp
  qed
  then obtain s' where s': "process_handshake env s = (ERROR, s')"
      "hs_writeq s' = hs_writeq s @
             [\<lparr>err_seq = header_seq (avail s) + 1, mysql_errno = ER_OUT_OF_ORDER,
               sqlstate = HANDSHAKE_ERRSTATE, mysql_message = PACKETS_OOO_MSG\<rparr>]"
    by blast
  have "ready_for_reading_handshake env s = (FAILED, True, s')"
    by (simp add: ready_for_reading_handshake_def s'(1))
  then show ?thesis
    using s'(2)
    by (simp add: ER_OUT_OF_ORDER_def HANDSHAKE_ERRSTATE_def PACKETS_OOO_MSG_def)
qed

theorem handshake_response_out_of_order_witness:
  "\<exists>s'. ready_for_reading_handshake plain_listener (accepted_conn (hs_response_frame 2))
           = (FAILED, True, s') \<and>
         hs_writeq s' = [\<lparr>err_seq = 3, mysql_errno = 1156, sqlstate = ''08S01'',
                          mysql_message = ''Got packets out of order''\<rparr>]"
proof -
  let ?s = "accepted_conn (hs_response_frame 2)"
  have a: "m_handshake_state ?s = EXPECT_HS_RESP \<or>
           (m_handshake_state ?s = HSState_INIT \<and> \<not> proxyproto_on plain_listener \<and>
            \<not> require_ssl plain_listener)"
    by (simp add: accepted_conn_def plain_listener_def)
  have b: "\<not> io_error ?s" by (simp add: accepted_conn_def)
  have c: "MYSQL_HEADER_LEN \<le> length (avail ?s)"
    by (simp add: accepted_conn_def hs_response_frame_def MYSQL_HEADER_LEN_def)
  have pl: "header_pl_length (avail ?s) = 34"
    by (simp add: accepted_conn_def hs_response_frame_def header_pl_length_def)
  have d: "NORMAL_HS_RESP_MIN_SIZE \<le> MYSQL_HEADER_LEN + header_pl_length (avail ?s)"
    unfolding pl by (simp add: NORMAL_HS_RESP_MIN_SIZE_def MYSQL_AUTH_PACKET_BASE_SIZE_def MYSQL_HEADER_LEN_def)
  have e: "MYSQL_HEADER_LEN + header_pl_length (avail ?s) \<le> NORMAL_HS_RESP_MAX_SIZE"
    unfolding pl by (simp add: NORMAL_HS_RESP_MAX_SIZE_def MYSQL_PACKET_LENGTH_MAX_def MYSQL_HEADER_LEN_def)
  have sq: "header_seq (avail ?s) = 2"
    by (simp add: accepted_conn_def hs_response_frame_def header_seq_def)
  have f: "uint (header_seq (avail ?s)) \<noteq> (if require_ssl plain_listener then 2 else 1)"
    unfolding sq by (simp add: plain_listener_def)
  have w: "hs_writeq ?s = []" by (simp add: accepted_conn_def)
  show ?thesis
    using handshake_response_out_of_order [OF a b c d e f] unfolding sq w by simp
qed

section \<open>Which endpoint states accept a request\<close>

lemma routeQuery_by_status:
  "(m_connstatus s = CONNECTED \<longrightarrow>
      routeQuery env b s =
        (conn_routeQuery env b,
         s\<lparr>conn_received := conn_received s @ [b], packets_counted := packets_counted s + 1\<rparr>)) \<and>
   (m_connstatus s = WAITING_FOR_CONN \<longrightarrow>
      routeQuery env b s = (True, s\<lparr>m_delayed_packets := m_delayed_packets s @ [b]\<rparr>)) \<and>
   (m_connstatus s = NO_CONN \<or> m_connstatus s = CONNECTED_FAILED \<longrightarrow>
      routeQuery env b s = (False, s)) \<and>
   (m_connstatus s = IDLE_POOLED \<longrightarrow>
      (case res_conn env of
         Some c \<Rightarrow>
           routeQuery env b s =
             (conn_routeQuery env b,
              s\<lparr>m_conn := Some c, m_connstatus := CONNECTED,
                conn_received := conn_received s @ [b], packets_counted := packets_counted s + 1\<rparr>)
       | None \<Rightarrow>
           if res_conn_limit_reached env \<and> idle_pooling_enabled env
           then routeQuery env b s =
                  (True, s\<lparr>m_connstatus := WAITING_FOR_CONN, in_wait_list := True,
                            m_delayed_packets := m_delayed_packets s @ [b]\<rparr>)
           else fst (routeQuery env b s) = False \<and>
                conn_received (snd (routeQuery env b s)) = conn_received s \<and>
                m_delayed_packets (snd (routeQuery env b s)) = m_delayed_packets s))"
  by (auto simp: routeQuery_def connect_def forward_to_conn_def split: option.splits)

lemma routeQuery_forwards_only_connected:
  "conn_received (snd (routeQuery env b s)) \<noteq> conn_received s \<Longrightarrow>
   m_connstatus (snd (routeQuery env b s)) = CONNECTED \<and>
   conn_received (snd (routeQuery env b s)) = conn_received s @ [b]"
  by (cases "m_connstatus s")
     (auto simp: routeQuery_def connect_def forward_to_conn_def split: option.splits if_splits)

lemma send_delayed_all:
  "\<forall>p \<in> set ps. rq p \<Longrightarrow> send_delayed rq ps = (True, ps)"
  by (induction ps) auto

lemma continue_connecting_flush:
  "res_conn env = Some c \<Longrightarrow> \<forall>p \<in> set (m_delayed_packets s). conn_routeQuery env p \<Longrightarrow>
   continue_connecting env s =
     (SUCCESS, s\<lparr>m_conn := Some c, m_connstatus := CONNECTED,
                 conn_received := conn_received s @ m_delayed_packets s, m_delayed_packets := []\<rparr>)"
  by (simp add: continue_connecting_def send_delayed_all)

text \<open>
  Claim C2, as the code has it. A packet is passed to the backend connection only while the
  status is \<open>CONNECTED\<close>: when the call finds that status, or when it finds \<open>IDLE_POOLED\<close> and
  \<open>connect\<close> obtains a connection, which sets the status to \<open>CONNECTED\<close> first. In
  \<open>WAITING_FOR_CONN\<close>, and in \<open>IDLE_POOLED\<close> when the connection limit is reached and idle
  pooling is on, the packet is appended to the delayed packets and the call answers true.
  In \<open>NO_CONN\<close> and \<open>CONNECTED_FAILED\<close> the endpoint does not change and the call answers
  false; so it does in \<open>IDLE_POOLED\<close> when no connection can be made, apart from the status.
  When a connection becomes available to a waiting endpoint and accepts the delayed
  packets, \<open>continue_connecting\<close> passes them on in order and empties the list.
\<close>

theorem endpoint_accepts_by_status:
  "(m_connstatus s = CONNECTED \<longrightarrow>
      routeQuery env b s =
        (conn_routeQuery env b,
         s\<lparr>conn_received := conn_received s @ [b], packets_counted := packets_counted s + 1\<rparr>)) \<and>
   (m_connstatus s = WAITING_FOR_CONN \<longrightarrow>
      routeQuery env b s = (True, s\<lparr>m_delayed_packets := m_delayed_packets s @ [b]\<rparr>)) \<and>
   (m_connstatus s = NO_CONN \<or> m_connstatus s = CONNECTED_FAILED \<longrightarrow>
      routeQuery env b s = (False, s)) \<and>
   (m_connstatus s = IDLE_POOLED \<longrightarrow>
      (case res_conn env of
         Some c \<Rightarrow>
           routeQuery env b s =
             (conn_routeQuery env b,
              s\<lparr>m_conn := Some c, m_connstatus := CONNECTED,
                conn_received := conn_received s @ [b], packets_counted := packets_counted s + 1\<rparr>)
       | None \<Rightarrow>
           if res_conn_limit_reached env \<and> idle_pooling_enabled env
           then routeQuery env b s =
                  (True, s\<lparr>m_connstatus := WAITING_FOR_CONN, in_wait_list := True,
                            m_delayed_packets := m_delayed_packets s @ [b]\<rparr>)
           else fst (routeQuery env b s) = False \<and>
                conn_received (snd (routeQuery env b s)) = conn_received s \<and>
                m_delayed_packets (snd (routeQuery env b s)) = m_delayed_packets s)) \<and>
   (conn_received (snd (routeQuery env b s)) \<noteq> conn_received s \<longrightarrow>
      m_connstatus (snd (routeQuery env b s)) = CONNECTED \<and>
      conn_received (snd (routeQuery env b s)) = conn_received s @ [b]) \<and>
   (res_conn env = Some c \<and> (\<forall>p \<in> set (m_delayed_packets s). conn_routeQuery env p) \<longrightarrow>
      continue_connecting env s =
        (SUCCESS, s\<lparr>m_conn := Some c, m_connstatus := CONNECTED,
                    conn_received := conn_received s @ m_delayed_packets s,
                    m_delayed_packets := []\<rparr>))"
  using routeQuery_by_status [of s env b] routeQuery_forwards_only_connected [of env b s]
        continue_connecting_flush [of env c s]
  by blast

theorem endpoint_accepts_by_status_witness:
  "m_connstatus (pooled_endpoint\<lparr>m_connstatus := WAITING_FOR_CONN\<rparr>) = WAITING_FOR_CONN \<and>
   routeQuery conn_available (plain_packet (MXS_COM_OTHER 3) 0)
       (pooled_endpoint\<lparr>m_connstatus := WAITING_FOR_CONN\<rparr>)
     = (True, pooled_endpoint\<lparr>m_connstatus := WAITING_FOR_CONN,
                               m_delayed_packets := [plain_packet (MXS_COM_OTHER 3) 0]\<rparr>)"
proof -
  let ?s = "pooled_endpoint\<lparr>m_connstatus := WAITING_FOR_CONN\<rparr>"
  let ?b = "plain_packet (MXS_COM_OTHER 3) 0"
  have st: "m_connstatus ?s = WAITING_FOR_CONN" by simp
  have "m_connstatus ?s = WAITING_FOR_CONN \<longrightarrow>
          routeQuery conn_available ?b ?s = (True, ?s\<lparr>m_delayed_packets := m_delayed_packets ?s @ [?b]\<rparr>)"
    using endpoint_accepts_by_status [of ?s conn_available ?b 1] by blast
  with st have r: "routeQuery conn_available ?b ?s
                     = (True, ?s\<lparr>m_delayed_packets := m_delayed_packets ?s @ [?b]\<rparr>)"
    by blast
  have d: "m_delayed_packets ?s = []" by (simp add: pooled_endpoint_def)
  show ?thesis unfolding r d using st by simp
qed

text \<open>
  The claim as worded fails for \<open>IDLE_POOLED\<close>: a request that finds the connection pooled is
  passed to a connection taken back into use.
\<close>

theorem endpoint_idle_pooled_counterexample:
  "m_connstatus pooled_endpoint = IDLE_POOLED \<and>
   routeQuery conn_available (plain_packet (MXS_COM_OTHER 3) 0) pooled_endpoint
     = (True, pooled_endpoint\<lparr>m_conn := Some 1, m_connstatus := CONNECTED,
                               conn_received := [plain_packet (MXS_COM_OTHER 3) 0],
                               packets_counted := 1\<rparr>)"
  by (simp add: routeQuery_def connect_def forward_to_conn_def pooled_endpoint_def conn_available_def)

section \<open>KILL of a session of another protocol\<close>

lemma generate_target_list_other_protocol:
  "no_mariadb_target mariadb_name (target_ses_id info) sessions \<Longrightarrow>
   generate_target_list mariadb_name sessions info = (info, sessions)"
  by (simp add: generate_target_list_def no_mariadb_target_def split: option.splits)

lemma search_targets_other_protocol:
  "list_all (no_mariadb_target mariadb_name (target_ses_id info)) workers \<Longrightarrow>
   search_targets mariadb_name workers info = (info, workers)"
  by (induction workers) (simp_all add: generate_target_list_other_protocol)

lemma execute_kill_other_protocol:
  assumes "main_worker_executes env"
    and "list_all (no_mariadb_target mariadb_name i) workers"
  shows "execute_kill env mariadb_name workers (new_ConnKillInfo i query) kill_resp c =
           (maybe_send_kill_response kill_resp c, new_ConnKillInfo i query, workers)"
proof -
  have "target_ses_id (new_ConnKillInfo i query) = i" by (simp add: new_ConnKillInfo_def)
  with assms(2) have "search_targets mariadb_name workers (new_ConnKillInfo i query)
                        = (new_ConnKillInfo i query, workers)"
    by (simp add: search_targets_other_protocol)
  moreover have "targets (new_ConnKillInfo i query) = []" by (simp add: new_ConnKillInfo_def)
  ultimately show ?thesis using assms(1) by (simp add: execute_kill_def)
qed

lemma maybe_send_ok_for_kill:
  "queued_kills (maybe_send_kill_response send_ok_for_kill c) = queued_kills c \<and>
   m_local_clients (maybe_send_kill_response send_ok_for_kill c) = m_local_clients c \<and>
   session_killed (maybe_send_kill_response send_ok_for_kill c) = session_killed c \<and>
   (\<not> have_local_clients c \<and> kill_session_state c = STARTED \<and> dcb_is_open c \<longrightarrow>
      kill_responses (maybe_send_kill_response send_ok_for_kill c) = kill_responses c + 1) \<and>
   (kill_session_state c \<noteq> STARTED \<or> \<not> dcb_is_open c \<longrightarrow>
      kill_responses (maybe_send_kill_response send_ok_for_kill c) = kill_responses c)"
  by (simp add: maybe_send_kill_response_def send_ok_for_kill_def)

text \<open>
  Claim C10, as the code has it. A KILL names a session that exists and does not speak the
  MariaDB protocol (session ids being unique, no worker then holds a MariaDB session of that
  id), and the main worker takes the task. Then the search ends with an empty set of
  targets and leaves every session of every worker as it was: no connection is hung up and
  no close reason is set. No KILL query is queued and no auxiliary client is added. The OK
  packet is written to the initiating client at once when its session is \<open>STARTED\<close>, its
  descriptor is open and it has no open auxiliary client; when its session is not
  \<open>STARTED\<close> or its descriptor is closed, none is written.
\<close>

theorem kill_other_protocol_session:
  assumes "main_worker_executes env"
    and "sessions \<in> set workers"
    and "registry_lookup i sessions = Some session"
    and "protocol_name session \<noteq> mariadb_name"
    and "list_all (no_mariadb_target mariadb_name i) workers"
  shows "\<exists>c'. execute_kill_connection env mariadb_name workers i query c =
                (c', new_ConnKillInfo i query, workers) \<and>
              targets (new_ConnKillInfo i query) = [] \<and>
              queued_kills c' = queued_kills c \<and>
              m_local_clients c' = m_local_clients c \<and>
              session_killed c' = session_killed c \<and>
              (\<not> have_local_clients c \<and> kill_session_state c = STARTED \<and> dcb_is_open c \<longrightarrow>
                 kill_responses c' = kill_responses c + 1) \<and>
              (kill_session_state c \<noteq> STARTED \<or> \<not> dcb_is_open c \<longrightarrow>
                 kill_responses c' = kill_responses c)"
proof -
  have "execute_kill_connection env mariadb_name workers i query c =
           (maybe_send_kill_response send_ok_for_kill c, new_ConnKillInfo i query, workers)"
    unfolding execute_kill_connection_def
    by (rule execute_kill_other_protocol [OF assms(1) assms(5)])
  moreover have "targets (new_ConnKillInfo i query) = []" by (simp add: new_ConnKillInfo_def)
  ultimately show ?thesis using maybe_send_ok_for_kill [of c] by blast
qed

theorem kill_other_protocol_session_witness:
  "\<exists>c'. execute_kill_connection willing_env ''mariadbprotocol'' [[other_protocol_session]]
            7 ''KILL '' started_client =
          (c', new_ConnKillInfo 7 ''KILL '', [[other_protocol_session]]) \<and>
        queued_kills c' = [] \<and> kill_responses c' = 1"
proof -
  have a: "main_worker_executes willing_env" by (simp add: willing_env_def)
  have b: "[other_protocol_session] \<in> set [[other_protocol_session]]" by simp
  have c: "registry_lookup 7 [other_protocol_session] = Some other_protocol_session"
    by (simp add: registry_lookup_def other_protocol_session_def)
  have d: "protocol_name other_protocol_session \<noteq> ''mariadbprotocol''"
    by (simp add: other_protocol_session_def)
  have e: "list_all (no_mariadb_target ''mariadbprotocol'' 7) [[other_protocol_session]]"
    using c d by (simp add: no_mariadb_target_def)
  have f: "\<not> have_local_clients started_client \<and> kill_session_state started_client = STARTED
           \<and> dcb_is_open started_client"
    by (simp add: have_local_clients_def started_client_def)
  have g: "queued_kills started_client = []" "kill_responses started_client = 0"
    by (simp_all add: started_client_def)
  show ?thesis
    using kill_other_protocol_session [OF a b c d e, of "''KILL ''" started_client] f g
    by auto
qed

text \<open>
  The claim as worded fails when the descriptor of the initiating client is closed by the
  time the search is done, as it is when the proxy shuts down: no OK packet is written.
\<close>

theorem kill_response_counterexample:
  "registry_lookup 7 [other_protocol_session] = Some other_protocol_session \<and>
   protocol_name other_protocol_session \<noteq> ''mariadbprotocol'' \<and>
   kill_responses
     (fst (execute_kill_connection willing_env ''mariadbprotocol'' [[other_protocol_session]]
             7 ''KILL '' (started_client\<lparr>dcb_is_open := False\<rparr>)))
     = kill_responses (started_client\<lparr>dcb_is_open := False\<rparr>)"
  by (simp add: execute_kill_connection_def execute_kill_def generate_target_list_def
                registry_lookup_def other_protocol_session_def willing_env_def new_ConnKillInfo_def
                maybe_send_kill_response_def send_ok_for_kill_def have_local_clients_def
                started_client_def)

section \<open>Lookups of \<open>information_schema\<close>\<close>

lemma found_result_info_schema:
  "eff_db = info_schema \<or> (\<not> cs \<and> strcasecmp_eq eff_db info_schema) \<Longrightarrow>
   entry_type (found_result userdb found eff_db cs) =
     (if eff_db \<noteq> [] \<and> \<not> check_database_exists userdb eff_db cs then BAD_DB else USER_ACCOUNT_OK)"
  by (simp add: found_result_def Let_def)

lemma anon_result_type:
  "entry_type (anon_result userdb a eff_db cs) \<noteq> DB_ACCESS_DENIED"
  by (simp add: anon_result_def Let_def)

lemma search_result_info_schema:
  assumes "is_info_schema (db_name_cmp_mode sett) requested_db"
  shows "entry_type (search_result userdb name ip requested_db sett) \<noteq> DB_ACCESS_DENIED"
proof -
  let ?eff = "eff_requested_db (db_name_cmp_mode sett) requested_db"
  let ?cs = "case_sensitive_db (db_name_cmp_mode sett)"
  have i: "?eff = info_schema \<or> (\<not> ?cs \<and> strcasecmp_eq ?eff info_schema)"
    using assms by (simp add: is_info_schema_def)
  have f: "entry_type (found_result userdb found ?eff ?cs) \<noteq> DB_ACCESS_DENIED" for found
    by (simp add: found_result_info_schema [OF i])
  have e: "entry_type empty_UserEntryResult \<noteq> DB_ACCESS_DENIED"
    by (simp add: empty_UserEntryResult_def)
  show ?thesis
    unfolding search_result_def Let_def
    using f anon_result_type e
    by (simp split: option.splits)
qed

lemma find_user_type:
  "entry_type (find_user userdb name ip requested_db sett) =
     (let t = entry_type (search_result userdb name ip requested_db sett)
      in if t = USER_ACCOUNT_OK \<and> \<not> allow_root_user sett \<and> name = ''root''
         then ROOT_ACCESS_DENIED else t)"
proof (cases "entry_type (search_result userdb name ip requested_db sett) = USER_ACCOUNT_OK
              \<and> \<not> allow_root_user sett \<and> name = ''root''")
  case True
  then show ?thesis by (simp add: find_user_def Let_def)
next
  case False
  then show ?thesis by (auto simp: find_user_def Let_def)
qed

lemma find_user_info_schema:
  assumes "is_info_schema (db_name_cmp_mode sett) requested_db"
  shows "entry_type (find_user userdb name ip requested_db sett) \<noteq> DB_ACCESS_DENIED"
  using search_result_info_schema [OF assms, of userdb name ip]
  by (simp add: find_user_type Let_def)

lemma find_user_bad_db:
  assumes "is_info_schema (db_name_cmp_mode sett) requested_db"
    and "(if match_host_pattern sett then find_entry_by_host userdb name ip
          else find_entry_by_name userdb name) = Some found"
  shows "entry_type (find_user userdb name ip requested_db sett) = BAD_DB \<longleftrightarrow>
         \<not> check_database_exists userdb (eff_requested_db (db_name_cmp_mode sett) requested_db)
             (case_sensitive_db (db_name_cmp_mode sett))"
proof -
  let ?eff = "eff_requested_db (db_name_cmp_mode sett) requested_db"
  let ?cs = "case_sensitive_db (db_name_cmp_mode sett)"
  have i: "?eff = info_schema \<or> (\<not> ?cs \<and> strcasecmp_eq ?eff info_schema)"
    using assms(1) by (simp add: is_info_schema_def)
  have ne: "?eff \<noteq> []"
    using i by (auto simp: info_schema_def strcasecmp_eq_def tolower_str_def)
  have "search_result userdb name ip requested_db sett = found_result userdb found ?eff ?cs"
    using assms(2) by (simp add: search_result_def Let_def)
  then have "entry_type (search_result userdb name ip requested_db sett) =
      (if \<not> check_database_exists userdb ?eff ?cs then BAD_DB else USER_ACCOUNT_OK)"
    using found_result_info_schema [OF i, of userdb found] ne by simp
  then show ?thesis by (simp add: find_user_type Let_def)
qed

text \<open>
  Claim C9, as the code has it. When the requested database is \<open>information_schema\<close>, as
  the listener's mode compares names, the lookup asks for no grant: the result is never
  \<open>DB_ACCESS_DENIED\<close>. The database must still be among the known database names: for a
  request that matches a user entry the result is \<open>BAD_DB\<close> exactly when
  \<open>check_database_exists\<close> fails for the name.
\<close>

theorem info_schema_needs_no_grant:
  assumes "is_info_schema (db_name_cmp_mode sett) requested_db"
  shows "entry_type (find_user userdb name ip requested_db sett) \<noteq> DB_ACCESS_DENIED \<and>
         ((if match_host_pattern sett then find_entry_by_host userdb name ip
           else find_entry_by_name userdb name) = Some found \<longrightarrow>
          (entry_type (find_user userdb name ip requested_db sett) = BAD_DB \<longleftrightarrow>
           \<not> check_database_exists userdb (eff_requested_db (db_name_cmp_mode sett) requested_db)
               (case_sensitive_db (db_name_cmp_mode sett))))"
  using find_user_info_schema [OF assms] find_user_bad_db [OF assms] by blast

theorem info_schema_needs_no_grant_witness:
  "is_info_schema (db_name_cmp_mode strict_listener) ''information_schema'' \<and>
   entry_type (find_user (alice_database [''information_schema'', ''sales'']) ''alice'' ''10.0.0.1''
                 ''information_schema'' strict_listener) \<noteq> DB_ACCESS_DENIED"
proof -
  have i: "is_info_schema (db_name_cmp_mode strict_listener) ''information_schema''"
    by (simp add: is_info_schema_def strict_listener_def eff_requested_db_def info_schema_def)
  show ?thesis
    using info_schema_needs_no_grant
            [OF i, of "alice_database [''information_schema'', ''sales'']" "''alice''" "''10.0.0.1''"]
          i
    by blast
qed

text \<open>
  The claim as worded fails on a user database whose database names do not include
  \<open>information_schema\<close>: the request of a known user is answered with \<open>BAD_DB\<close>.
\<close>

theorem info_schema_bad_db_counterexample:
  "is_info_schema (db_name_cmp_mode strict_listener) ''information_schema'' \<and>
   entry_type (find_user (alice_database [''sales'']) ''alice'' ''10.0.0.1''
                 ''information_schema'' strict_listener) = BAD_DB"
  by (simp add: find_user_def search_result_def found_result_def alice_database_def
                strict_listener_def eff_requested_db_def case_sensitive_db_def
                empty_UserEntryResult_def check_database_exists_def info_schema_def
                is_info_schema_def)

section \<open>Read candidates: replication lag and GTID position\<close>

lemma get_backend_priority_range:
  "0 \<le> get_backend_priority b st m \<and> get_backend_priority b st m \<le> 2"
  by (simp add: get_backend_priority_def Let_def)

lemma backend_priority_lt_INT_MAX: "backend_priority s i < INT_MAX"
  using get_backend_priority_range [of "m_raw_backends s ! i" "status (m_raw_backends s ! i)" "master_accept_reads s"]
  by (simp add: backend_priority_def INT_MAX_def)

lemma scan_backend_candidates:
  "candidates (scan_backend s r acc i) =
     (if read_candidate s r i
      then (if backend_priority s i < best_priority acc then [i]
            else if backend_priority s i = best_priority acc then candidates acc @ [i]
            else candidates acc)
      else candidates acc)"
  by (simp add: scan_backend_def backend_priority_def Let_def)

lemma scan_backend_best_priority:
  "best_priority (scan_backend s r acc i) =
     (if read_candidate s r i \<and> backend_priority s i < best_priority acc
      then backend_priority s i else best_priority acc)"
  by (simp add: scan_backend_def backend_priority_def Let_def)

lemma scan_inv_step:
  assumes "scan_inv s r xs acc"
  shows "scan_inv s r (xs @ [i]) (scan_backend s r acc i)"
proof -
  note c = scan_backend_candidates [of s r acc i]
  note b = scan_backend_best_priority [of s r acc i]
  have inv1: "candidates acc = filter (\<lambda>i. read_candidate s r i \<and> backend_priority s i = best_priority acc) xs"
    and inv2: "\<forall>j \<in> set xs. read_candidate s r j \<longrightarrow> best_priority acc \<le> backend_priority s j"
    and inv3: "best_priority acc = INT_MAX \<or>
      (\<exists>j \<in> set xs. read_candidate s r j \<and> backend_priority s j = best_priority acc)"
    using assms by (simp_all add: scan_inv_def)
  show ?thesis
  proof (cases "read_candidate s r i")
    case False
    then show ?thesis using c b inv1 inv2 inv3 by (auto simp: scan_inv_def)
  next
    case rc: True
    consider (lt) "backend_priority s i < best_priority acc"
      | (eq) "backend_priority s i = best_priority acc"
      | (gt) "backend_priority s i > best_priority acc" by linarith
    then show ?thesis
    proof cases
      case lt
      have "filter (\<lambda>j. read_candidate s r j \<and> backend_priority s j = backend_priority s i) xs = []"
        using inv2 lt by (auto simp: filter_empty_conv)
      then show ?thesis using c b rc lt inv2 by (auto simp: scan_inv_def)
    next
      case eq
      then show ?thesis using c b rc inv1 inv2 by (auto simp: scan_inv_def)
    next
      case gt
      then show ?thesis using c b rc inv1 inv2 inv3 backend_priority_lt_INT_MAX [of s i]
        by (auto simp: scan_inv_def)
    qed
  qed
qed

lemma scan_inv_foldl:
  "scan_inv s r xs acc \<Longrightarrow> scan_inv s r (xs @ ys) (foldl (scan_backend s r) acc ys)"
proof (induction ys arbitrary: xs acc)
  case Nil
  then show ?case by simp
next
  case (Cons y ys)
  from scan_inv_step [OF Cons.prems, of y]
  have "scan_inv s r ((xs @ [y]) @ ys) (foldl (scan_backend s r) (scan_backend s r acc y) ys)"
    by (rule Cons.IH)
  then show ?case by simp
qed

lemma scan_inv_scan_backends:
  "scan_inv s r [0 ..< length (m_raw_backends s)] (scan_backends s r cs)"
proof -
  have "scan_inv s r [] \<lparr>candidates = [], best_priority = INT_MAX, m_check_stale = cs, rlag_states = []\<rparr>"
    by (simp add: scan_inv_def)
  from scan_inv_foldl [OF this, of "[0 ..< length (m_raw_backends s)]"]
  show ?thesis by (simp add: scan_backends_def)
qed

lemma candidates_iff:
  "i \<in> set (candidates (scan_backends s r cs)) \<longleftrightarrow>
     i < length (m_raw_backends s) \<and> read_candidate s r i \<and>
     (\<forall>j < length (m_raw_backends s). read_candidate s r j \<longrightarrow> backend_priority s i \<le> backend_priority s j)"
proof -
  let ?acc = "scan_backends s r cs"
  let ?n = "length (m_raw_backends s)"
  have inv1: "candidates ?acc = filter (\<lambda>i. read_candidate s r i \<and> backend_priority s i = best_priority ?acc) [0 ..< ?n]"
    and inv2: "\<forall>j \<in> set [0 ..< ?n]. read_candidate s r j \<longrightarrow> best_priority ?acc \<le> backend_priority s j"
    and inv3: "best_priority ?acc = INT_MAX \<or>
      (\<exists>j \<in> set [0 ..< ?n]. read_candidate s r j \<and> backend_priority s j = best_priority ?acc)"
    using scan_inv_scan_backends [of s r cs] by (simp_all add: scan_inv_def)
  show ?thesis
  proof
    assume "i \<in> set (candidates ?acc)"
    then show "i < ?n \<and> read_candidate s r i \<and>
       (\<forall>j < ?n. read_candidate s r j \<longrightarrow> backend_priority s i \<le> backend_priority s j)"
      using inv1 inv2 by auto
  next
    assume a: "i < ?n \<and> read_candidate s r i \<and>
       (\<forall>j < ?n. read_candidate s r j \<longrightarrow> backend_priority s i \<le> backend_priority s j)"
    then have le: "best_priority ?acc \<le> backend_priority s i" using inv2 by simp
    then have "best_priority ?acc \<noteq> INT_MAX" using backend_priority_lt_INT_MAX [of s i] by simp
    then obtain j where j: "j < ?n" "read_candidate s r j" "backend_priority s j = best_priority ?acc"
      using inv3 by auto
    then have "backend_priority s i \<le> best_priority ?acc" using a by auto
    with le have "backend_priority s i = best_priority ?acc" by simp
    then show "i \<in> set (candidates ?acc)" using inv1 a by simp
  qed
qed

lemma rpl_lag_is_ok_iff:
  "rpl_lag_is_ok b max_rlag \<longleftrightarrow>
     max_rlag = RLAG_UNDEFINED \<or> (replication_lag b \<noteq> RLAG_UNDEFINED \<and> replication_lag b < max_rlag)"
  by (simp add: rpl_lag_is_ok_def Let_def)

lemma read_candidate_rlag:
  "read_candidate s r i \<Longrightarrow> rpl_lag_is_ok (m_raw_backends s ! i) r"
  by (simp add: read_candidate_def Let_def)

lemma read_candidate_gtid:
  "read_candidate s r i \<Longrightarrow> Some i = m_current_master s \<or> is_gtid_synced s (m_raw_backends s ! i)"
  by (simp add: read_candidate_def Let_def)

lemma best_score_loop_mem:
  "best_score_loop sc lw mn best bs \<in> set (best # bs)"
  by (induction bs arbitrary: mn best) (auto simp: Let_def)

lemma best_score_mem: "best_score sc lw cands = Some i \<Longrightarrow> i \<in> set cands"
proof (cases cands)
  case Nil
  assume "best_score sc lw cands = Some i"
  with Nil show ?thesis by (simp add: best_score_def)
next
  case (Cons b bs)
  assume a: "best_score sc lw cands = Some i"
  show ?thesis
  proof (cases bs)
    case Nil
    with a Cons show ?thesis by (simp add: best_score_def)
  next
    case (Cons c cs)
    with a \<open>cands = b # bs\<close> have "i = best_score_loop sc lw (sc b) b bs"
      by (simp add: best_score_def del: best_score_loop.simps)
    then show ?thesis using best_score_loop_mem [of sc lw "sc b" b bs] \<open>cands = b # bs\<close> by simp
  qed
qed

lemma min_element_loop_mem: "min_element_loop est smallest bs \<in> set (smallest # bs)"
  by (induction bs arbitrary: smallest) auto

lemma backend_cmp_response_time_mem:
  "backend_cmp_response_time backends cands = Some i \<Longrightarrow> i \<in> set cands"
proof (cases cands)
  case Nil
  assume "backend_cmp_response_time backends cands = Some i"
  with Nil show ?thesis by (simp add: backend_cmp_response_time_def)
next
  case (Cons b bs)
  assume a: "backend_cmp_response_time backends cands = Some i"
  show ?thesis
  proof (cases bs)
    case Nil
    with a Cons show ?thesis by (simp add: backend_cmp_response_time_def)
  next
    case (Cons c cs)
    with a \<open>cands = b # bs\<close> have "\<exists>est. i = min_element_loop est b bs"
      by (auto simp add: backend_cmp_response_time_def simp del: min_element_loop.simps)
    then obtain est where "i = min_element_loop est b bs" by blast
    then show ?thesis using min_element_loop_mem [of est b bs] \<open>cands = b # bs\<close> by simp
  qed
qed

lemma backend_select_fct_mem:
  "backend_select_fct sc backends cands = Some i \<Longrightarrow> i \<in> set cands"
  by (cases sc) (auto simp: backend_select_fct_def dest: best_score_mem backend_cmp_response_time_mem)

lemma get_slave_backend_candidate:
  "get_slave_backend s r = Some i \<Longrightarrow>
   i < length (m_raw_backends s) \<and> read_candidate s r i"
  using backend_select_fct_mem [of "slave_selection_criteria s" "m_raw_backends s"
          "candidates (scan_backends s r False)" i]
        candidates_iff [of i s r False]
  by (simp add: get_slave_backend_def)

lemma read_candidate_split_lag:
  "read_candidate s r i \<longleftrightarrow> read_candidate s RLAG_UNDEFINED i \<and> rpl_lag_is_ok (m_raw_backends s ! i) r"
  by (auto simp: read_candidate_def rpl_lag_is_ok_def Let_def)

lemma is_gtid_synced_zero:
  assumes "((causal_reads s = CausalReads_FAST \<or> causal_reads s = CausalReads_FAST_UNIVERSAL)
             \<and> sequence (m_gtid_pos s) = 0)
           \<or> (causal_reads s = CausalReads_FAST_GLOBAL
               \<and> list_all (\<lambda>(d, g). sequence g = 0) (last_gtid_map s))"
  shows "is_gtid_synced s b"
  using assms
  by (auto simp: is_gtid_synced_def gtid_pos_is_ok_def list_all_iff)

lemma is_gtid_synced_none: "is_gtid_synced (s\<lparr>causal_reads := CausalReads_NONE\<rparr>) b"
  by (simp add: is_gtid_synced_def)

lemma master_in_use_no_causal:
  "master_in_use (s\<lparr>causal_reads := c\<rparr>) = master_in_use s"
  by (simp add: master_in_use_def split: option.splits)

lemma no_causal_frame:
  "get_current_rank (s\<lparr>causal_reads := c\<rparr>) = get_current_rank s"
  "need_slaves (s\<lparr>causal_reads := c\<rparr>) = need_slaves s"
  by (simp_all add: get_current_rank_def master_in_use_no_causal need_slaves_def
                    get_slave_counts_def valid_for_slave_def)

lemma read_candidate_no_gate:
  assumes "\<And>b. is_gtid_synced s b"
  shows "read_candidate (s\<lparr>causal_reads := CausalReads_NONE\<rparr>) r i = read_candidate s r i"
  using assms is_gtid_synced_none [of s]
  by (simp add: read_candidate_def Let_def no_causal_frame)

lemma scan_backend_no_gate:
  assumes "\<And>b. is_gtid_synced s b"
  shows "scan_backend (s\<lparr>causal_reads := CausalReads_NONE\<rparr>) r = scan_backend s r"
proof (intro ext)
  fix acc i
  show "scan_backend (s\<lparr>causal_reads := CausalReads_NONE\<rparr>) r acc i = scan_backend s r acc i"
    unfolding scan_backend_def read_candidate_no_gate [OF assms] no_causal_frame
    by simp
qed

lemma get_slave_backend_no_gate:
  assumes "\<And>b. is_gtid_synced s b"
  shows "get_slave_backend (s\<lparr>causal_reads := CausalReads_NONE\<rparr>) r = get_slave_backend s r"
  by (simp add: get_slave_backend_def scan_backends_def scan_backend_no_gate [OF assms])

lemma chosen_is_synced:
  assumes "get_slave_backend s r = Some i" and "Some i \<noteq> m_current_master s"
  shows "is_gtid_synced s (m_raw_backends s ! i)"
  using get_slave_backend_candidate [OF assms(1)] read_candidate_gtid [of s r i] assms(2)
  by blast

lemma slave_session_rank:
  "get_current_rank (read_session [slave_backend lag pos] cr seq) = 1"
  by (simp add: get_current_rank_def master_in_use_def read_session_def slave_backend_def)

lemma slave_session_candidate:
  "read_candidate (read_session [slave_backend lag pos] cr seq) r 0 \<longleftrightarrow>
     rpl_lag_is_ok (slave_backend lag pos) r \<and>
     is_gtid_synced (read_session [slave_backend lag pos] cr seq) (slave_backend lag pos)"
  unfolding read_candidate_def Let_def slave_session_rank
  by (simp add: read_session_def slave_backend_def SERVER_MASTER_def SERVER_SLAVE_def SERVER_MAINT_def)

lemma slave_session_scan:
  "candidates (scan_backends (read_session [slave_backend lag pos] cr seq) r False) =
     (if read_candidate (read_session [slave_backend lag pos] cr seq) r 0 then [0] else [])"
proof -
  have l: "[0 ..< length (m_raw_backends (read_session [slave_backend lag pos] cr seq))] = [0]"
    by (simp add: read_session_def)
  have p: "backend_priority (read_session [slave_backend lag pos] cr seq) 0 < INT_MAX"
    by (rule backend_priority_lt_INT_MAX)
  show ?thesis
    unfolding scan_backends_def l
    using p by (simp add: scan_backend_candidates)
qed

text \<open>
  Claim C1, as the code has it. The backend at position \<open>i\<close> is among the candidates
  exactly when it is a read candidate of the least priority value among the read
  candidates; it is a read candidate exactly when it is one without a lag limit and its
  replication lag is acceptable; and with a limit set, the lag is acceptable exactly when
  it is known and strictly below the limit. A backend whose lag equals the limit is not a
  candidate.
\<close>

theorem read_candidates_by_lag:
  "(i \<in> set (candidates (scan_backends s max_rlag cs)) \<longleftrightarrow>
      i < length (m_raw_backends s) \<and> read_candidate s max_rlag i \<and>
      (\<forall>j < length (m_raw_backends s).
         read_candidate s max_rlag j \<longrightarrow> backend_priority s i \<le> backend_priority s j)) \<and>
   (read_candidate s max_rlag i \<longleftrightarrow>
      read_candidate s RLAG_UNDEFINED i \<and> rpl_lag_is_ok (m_raw_backends s ! i) max_rlag) \<and>
   (rpl_lag_is_ok b max_rlag \<longleftrightarrow>
      max_rlag = RLAG_UNDEFINED \<or>
      (replication_lag b \<noteq> RLAG_UNDEFINED \<and> replication_lag b < max_rlag))"
  using candidates_iff [of i s max_rlag cs] read_candidate_split_lag [of s max_rlag i]
        rpl_lag_is_ok_iff [of b max_rlag]
  by blast

theorem read_candidates_by_lag_witness:
  "replication_lag (slave_backend 5 0) < 6 \<and>
   0 \<in> set (candidates (scan_backends (read_session [slave_backend 5 0] CausalReads_NONE 0) 6 False))"
proof -
  let ?s = "read_session [slave_backend 5 0] CausalReads_NONE 0"
  have lag: "replication_lag (slave_backend 5 0) < 6" by (simp add: slave_backend_def)
  have rc: "read_candidate ?s 6 0"
    unfolding slave_session_candidate
    by (simp add: rpl_lag_is_ok_def RLAG_UNDEFINED_def is_gtid_synced_def slave_backend_def
                  read_session_def)
  have len: "length (m_raw_backends ?s) = 1" by (simp add: read_session_def)
  have "0 \<in> set (candidates (scan_backends ?s 6 False))"
    using read_candidates_by_lag [of 0 ?s 6 False "slave_backend 5 0"] rc len by simp
  with lag show ?thesis by simp
qed

text \<open>
  The claim as worded fails at the limit: a slave in use whose lag is 5 is a candidate
  under the limit 6 and is none under the limit 5.
\<close>

theorem read_lag_at_threshold_counterexample:
  "replication_lag (slave_backend 5 0) = 5 \<and>
   candidates (scan_backends (read_session [slave_backend 5 0] CausalReads_NONE 0) 6 False) = [0] \<and>
   candidates (scan_backends (read_session [slave_backend 5 0] CausalReads_NONE 0) 5 False) = [] \<and>
   get_slave_backend (read_session [slave_backend 5 0] CausalReads_NONE 0) 5 = None"
  unfolding get_slave_backend_def slave_session_scan slave_session_candidate
  by (simp add: rpl_lag_is_ok_def RLAG_UNDEFINED_def is_gtid_synced_def slave_backend_def
                read_session_def backend_select_fct_def best_score_def)

text \<open>
  Claim C8. Under the fast modes of causal reads: a chosen backend other than the
  session's current master has, for the required position (\<open>FAST\<close>, \<open>FAST_UNIVERSAL\<close>) or for
  every position of the router's map (\<open>FAST_GLOBAL\<close>), either a required sequence of 0 or a
  GTID position in the domain that is at least the sequence. When the required sequence is
  0 (every sequence of the map, for \<open>FAST_GLOBAL\<close>), every backend passes the GTID test and the
  choice is the one made without causal reads.
\<close>

theorem chosen_replica_gtid:
  "(get_slave_backend s max_rlag = Some i \<and> Some i \<noteq> m_current_master s \<longrightarrow>
      (causal_reads s = CausalReads_FAST \<or> causal_reads s = CausalReads_FAST_UNIVERSAL \<longrightarrow>
         sequence (m_gtid_pos s) = 0 \<or>
         sequence (m_gtid_pos s) \<le> gtid_pos (m_raw_backends s ! i) (domain (m_gtid_pos s))) \<and>
      (causal_reads s = CausalReads_FAST_GLOBAL \<longrightarrow>
         list_all (\<lambda>(d, g). sequence g = 0 \<or> sequence g \<le> gtid_pos (m_raw_backends s ! i) (domain g))
                  (last_gtid_map s))) \<and>
   (((causal_reads s = CausalReads_FAST \<or> causal_reads s = CausalReads_FAST_UNIVERSAL)
       \<and> sequence (m_gtid_pos s) = 0)
     \<or> (causal_reads s = CausalReads_FAST_GLOBAL
         \<and> list_all (\<lambda>(d, g). sequence g = 0) (last_gtid_map s)) \<longrightarrow>
      (\<forall>b. is_gtid_synced s b) \<and>
      get_slave_backend (s\<lparr>causal_reads := CausalReads_NONE\<rparr>) max_rlag = get_slave_backend s max_rlag)"
proof (intro conjI impI)
  assume a: "get_slave_backend s max_rlag = Some i \<and> Some i \<noteq> m_current_master s"
  then have sy: "is_gtid_synced s (m_raw_backends s ! i)"
    using chosen_is_synced [of s max_rlag i] by blast
  {
    assume "causal_reads s = CausalReads_FAST \<or> causal_reads s = CausalReads_FAST_UNIVERSAL"
    with sy show "sequence (m_gtid_pos s) = 0 \<or>
         sequence (m_gtid_pos s) \<le> gtid_pos (m_raw_backends s ! i) (domain (m_gtid_pos s))"
      by (auto simp: is_gtid_synced_def gtid_pos_is_ok_def)
  }
  {
    assume "causal_reads s = CausalReads_FAST_GLOBAL"
    with sy show "list_all (\<lambda>(d, g). sequence g = 0 \<or> sequence g \<le> gtid_pos (m_raw_backends s ! i) (domain g))
                  (last_gtid_map s)"
      by (auto simp: is_gtid_synced_def gtid_pos_is_ok_def list_all_iff)
  }
next
  assume z: "((causal_reads s = CausalReads_FAST \<or> causal_reads s = CausalReads_FAST_UNIVERSAL)
       \<and> sequence (m_gtid_pos s) = 0)
     \<or> (causal_reads s = CausalReads_FAST_GLOBAL
         \<and> list_all (\<lambda>(d, g). sequence g = 0) (last_gtid_map s))"
  show "\<forall>b. is_gtid_synced s b" using is_gtid_synced_zero [OF z] by blast
next
  assume z: "((causal_reads s = CausalReads_FAST \<or> causal_reads s = CausalReads_FAST_UNIVERSAL)
       \<and> sequence (m_gtid_pos s) = 0)
     \<or> (causal_reads s = CausalReads_FAST_GLOBAL
         \<and> list_all (\<lambda>(d, g). sequence g = 0) (last_gtid_map s))"
  show "get_slave_backend (s\<lparr>causal_reads := CausalReads_NONE\<rparr>) max_rlag = get_slave_backend s max_rlag"
    by (rule get_slave_backend_no_gate) (rule is_gtid_synced_zero [OF z])
qed

theorem chosen_replica_gtid_witness:
  "get_slave_backend (read_session [slave_backend 0 10] CausalReads_FAST 10) RLAG_UNDEFINED = Some 0 \<and>
   sequence (m_gtid_pos (read_session [slave_backend 0 10] CausalReads_FAST 10)) = 10 \<and>
   (10 :: 64 word) \<le> gtid_pos (m_raw_backends (read_session [slave_backend 0 10] CausalReads_FAST 10) ! 0) 0"
proof -
  let ?s = "read_session [slave_backend 0 10] CausalReads_FAST 10"
  have g: "get_slave_backend ?s RLAG_UNDEFINED = Some 0"
    unfolding get_slave_backend_def slave_session_scan slave_session_candidate
    by (simp add: rpl_lag_is_ok_def is_gtid_synced_def gtid_pos_is_ok_def gtid_pos_def
                  slave_backend_def read_session_def backend_select_fct_def best_score_def)
  have m: "Some 0 \<noteq> m_current_master ?s" by (simp add: read_session_def)
  have c: "causal_reads ?s = CausalReads_FAST" by (simp add: read_session_def)
  have q: "sequence (m_gtid_pos ?s) = 10" "domain (m_gtid_pos ?s) = 0"
    by (simp_all add: read_session_def)
  have "sequence (m_gtid_pos ?s) = 0 \<or>
        sequence (m_gtid_pos ?s) \<le> gtid_pos (m_raw_backends ?s ! 0) (domain (m_gtid_pos ?s))"
    using chosen_replica_gtid [of ?s RLAG_UNDEFINED 0] g m c by blast
  then have "(10 :: 64 word) \<le> gtid_pos (m_raw_backends ?s ! 0) 0"
    unfolding q by simp
  with g q(1) show ?thesis by simp
qed

end
